theory Spec2Isabelle
  imports Main "HOL-Library.Sublist" "HOL-Library.AList"
begin

section \<open>JavaScript values and thrown values\<close>

text \<open>
  The bridges are written in TypeScript and hand JavaScript values to their callers:
  strings, arrays, objects parsed from JSON, and \<open>undefined\<close>. One datatype covers
  them, together with the two kinds of value only the Fauna service produces
  (document references and sets of references).
\<close>

datatype val =
    VUndef
  | VNull
  | VBool bool
  | VNum int
  | VStr string
  | VRef nat
  | VSet "nat list"
  | VArr "val list"
  | VObj "(string \<times> val) list"

text \<open>
  What a \<open>throw\<close> carries. \<open>ErrorObj name message\<close> is an instance of \<open>Error\<close>
  (or of a subclass called \<open>name\<close>); \<open>GraphQLError message originalError status\<close> is
  the error the query-DSL bridge constructs, with the field \<open>extensions.status\<close>;
  \<open>Thrown v\<close> is any thrown value that is not an \<open>Error\<close>.
\<close>

datatype thrown =
    ErrorObj string string
  | GraphQLError string "thrown option" string
  | Thrown val

fun instanceof_Error :: "thrown \<Rightarrow> bool" where
  "instanceof_Error (ErrorObj _ _) = True"
| "instanceof_Error (GraphQLError _ _ _) = True"
| "instanceof_Error (Thrown _) = False"

fun message :: "thrown \<Rightarrow> string" where
  "message (ErrorObj _ m) = m"
| "message (GraphQLError m _ _) = m"
| "message (Thrown _) = []"

text \<open>\<open>s.includes(t)\<close>: \<open>t\<close> occurs in \<open>s\<close> as a contiguous substring.\<close>

definition str_includes :: "string \<Rightarrow> string \<Rightarrow> bool" where
  "str_includes s t = sublist t s"

fun strip_prefix :: "string \<Rightarrow> string \<Rightarrow> string option" where
  "strip_prefix [] s = Some s"
| "strip_prefix (p # ps) [] = None"
| "strip_prefix (p # ps) (c # cs) = (if p = c then strip_prefix ps cs else None)"

section \<open>The connection resolver (packages/tinacms/src/utils/parseUrl.ts)\<close>

definition TINA_HOST :: string where
  "TINA_HOST = ''content.tinajs.io''"

record connection =
  branch :: "string option"
  isLocalClient :: bool
  clientId :: "string option"
  isFaunaClient :: bool
  faunaContentUrl :: "string option"

text \<open>The two fields of a parsed \<open>URL\<close> object that \<open>parseURL\<close> reads.\<close>

record URL =
  host :: string
  pathname :: string

text \<open>
  What \<open>pattern.match\<close> returns for the template \<open>/content/:clientId/github/*\<close> when
  the path matches: the named segment and the wildcard (the property \<open>_\<close>).
\<close>

record pattern_match =
  seg_clientId :: string
  seg_wildcard :: string

text \<open>JavaScript's \<open>!x\<close> for a value that is a string, \<open>null\<close> or \<open>undefined\<close>.\<close>

fun falsy :: "string option \<Rightarrow> bool" where
  "falsy None = True"
| "falsy (Some s) = (s = [])"

definition format_error :: "string \<Rightarrow> thrown" where
  "format_error url = ErrorObj ''Error''
     (''Invalid URL format provided. Expected: https://content.tinajs.io/content/<ClientID>/github/<Branch> but but received '' @ url)"

definition local_connection :: connection where
  "local_connection = \<lparr>branch = None, isLocalClient = True, clientId = None,
     isFaunaClient = False, faunaContentUrl = None\<rparr>"

text \<open>
  \<open>parseURL\<close>, with the two library calls it makes as parameters: \<open>new_URL\<close> stands for
  \<open>new URL(url)\<close> (which throws on a string that is not a URL) and \<open>pmatch\<close> for
  \<open>pattern.match\<close> of the fixed template (which returns \<open>null\<close> when the path does not
  match). The branches are in the order of the source.
\<close>

definition parseURL_with ::
  "(string \<Rightarrow> thrown + URL) \<Rightarrow> (string \<Rightarrow> pattern_match option) \<Rightarrow> string \<Rightarrow> thrown + connection" where
  "parseURL_with new_URL pmatch url =
    (if str_includes url ''localhost'' then Inr local_connection
     else case new_URL url of
       Inl e \<Rightarrow> Inl e
     | Inr params \<Rightarrow>
        (let result = pmatch (pathname params);
             branch' = map_option seg_wildcard result;
             clientId' = map_option seg_clientId result
         in if host params \<noteq> TINA_HOST then
              Inr \<lparr>branch = None, isLocalClient = False, clientId = None,
                   isFaunaClient = True, faunaContentUrl = Some url\<rparr>
            else if falsy branch' \<or> falsy clientId' then Inl (format_error url)
            else Inr \<lparr>branch = branch', isLocalClient = False, clientId = clientId',
                      isFaunaClient = False, faunaContentUrl = None\<rparr>))"

subsection \<open>The two library calls\<close>

definition url_delim :: "char \<Rightarrow> bool" where
  "url_delim c = (c = CHR ''/'' \<or> c = CHR ''?'' \<or> c = CHR ''#'')"

definition path_delim :: "char \<Rightarrow> bool" where
  "path_delim c = (c = CHR ''?'' \<or> c = CHR ''#'')"

text \<open>
  Modelled from the spec: the \<open>URL\<close> class of the platform is not part of the
  repository; the spec only says "otherwise parse as a URL" and reads the host and the
  path of the result. The model covers the connection strings the spec documents,
  \<open>http(s)://authority/path?query#fragment\<close>: the host is the authority as written, the
  path runs to the first \<open>?\<close> or \<open>#\<close> and is \<open>/\<close> when empty. User information, port
  normalisation, case folding and percent-encoding are not modelled, and every other
  string is taken not to parse.
\<close>

definition URL_of_rest :: "string \<Rightarrow> thrown + URL" where
  "URL_of_rest rest =
    (let authority = takeWhile (\<lambda>c. \<not> url_delim c) rest;
         after = dropWhile (\<lambda>c. \<not> url_delim c) rest;
         path = takeWhile (\<lambda>c. \<not> path_delim c) after
     in if authority = [] then Inl (ErrorObj ''TypeError'' ''Invalid URL'')
        else Inr \<lparr>host = authority, pathname = (if path = [] then ''/'' else path)\<rparr>)"

definition new_URL :: "string \<Rightarrow> thrown + URL" where
  "new_URL url =
    (case strip_prefix ''https://'' url of
       Some rest \<Rightarrow> URL_of_rest rest
     | None \<Rightarrow>
        (case strip_prefix ''http://'' url of
           Some rest \<Rightarrow> URL_of_rest rest
         | None \<Rightarrow> Inl (ErrorObj ''TypeError'' ''Invalid URL'')))"

text \<open>
  The characters a named segment of a \<open>UrlPattern\<close> may hold (the library's default
  \<open>segmentValueCharset\<close>, \<open>a-zA-Z0-9-_~ %\<close>).
\<close>

definition segment_char :: "char \<Rightarrow> bool" where
  "segment_char c =
    (let n = (of_char c :: nat)
     in (97 \<le> n \<and> n \<le> 122) \<or> (65 \<le> n \<and> n \<le> 90) \<or> (48 \<le> n \<and> n \<le> 57) \<or>
        c = CHR ''-'' \<or> c = CHR ''_'' \<or> c = CHR ''~'' \<or> c = CHR '' '' \<or> c = CHR ''%'')"

definition line_terminator :: "char \<Rightarrow> bool" where
  "line_terminator c = (c = CHR 0x0A \<or> c = CHR 0x0D)"

text \<open>
  Modelled from the spec: the \<open>url-pattern\<close> library is not part of the repository; the
  spec says the resolver extracts \<open>clientId\<close> and the remainder as \<open>branch\<close> from the
  fixed template \<open>/content/:clientId/github/*\<close>. The path must start with
  \<open>/content/\<close>, continue with a non-empty run of segment characters (the named
  segment), then \<open>/github/\<close>, and the wildcard takes whatever follows, possibly
  nothing, up to the end of the path (it does not cross a line terminator).
\<close>

definition UrlPattern_match :: "string \<Rightarrow> pattern_match option" where
  "UrlPattern_match path =
    (case strip_prefix ''/content/'' path of
       None \<Rightarrow> None
     | Some r \<Rightarrow>
        (let cid = takeWhile segment_char r
         in if cid = [] then None
            else case strip_prefix ''/github/'' (dropWhile segment_char r) of
                   None \<Rightarrow> None
                 | Some rest \<Rightarrow>
                     if list_ex line_terminator rest then None
                     else Some \<lparr>seg_clientId = cid, seg_wildcard = rest\<rparr>))"

definition parseURL :: "string \<Rightarrow> thrown + connection" where
  "parseURL url = parseURL_with new_URL UrlPattern_match url"

section \<open>The store capability flags (packages/@tinacms/datalayer/src/database/store/fauna.ts)\<close>

text \<open>
  Both revisions of \<open>FaunaStore\<close> extend \<open>LevelStore\<close>, whose constructor takes
  \<open>rootPath\<close> and \<open>useMemory\<close>; \<open>'s\<close> is whatever else the wrapped store holds. The two
  capability methods take the store and ignore it.
\<close>

record 's LevelStore =
  store_rootPath :: string
  store_useMemory :: bool
  store_contents :: 's

datatype 's FaunaStore = FaunaStore_first "'s LevelStore" | FaunaStore_second "'s LevelStore"

fun supportsSeeding :: "'s FaunaStore \<Rightarrow> bool" where
  "supportsSeeding (FaunaStore_first _) = True"
| "supportsSeeding (FaunaStore_second _) = False"

fun supportsIndexing :: "'s FaunaStore \<Rightarrow> bool" where
  "supportsIndexing (FaunaStore_first _) = False"
| "supportsIndexing (FaunaStore_second _) = False"

section \<open>The Fauna service, as the query-DSL bridge uses it\<close>

text \<open>
  The first revision of packages/@tinacms/graphql/src/database/bridge/fauna.ts builds
  its requests with the query combinators of the \<open>faunadb\<close> driver (\<open>fq.Map\<close>,
  \<open>fq.Get\<close>, ...). A query is a term of the following datatype, one constructor for
  each combinator the bridge uses. \<open>Lit v\<close> is a JavaScript value passed where the
  driver expects an expression (a string, a number, an object literal).
\<close>

datatype expr =
    Lit val
  | Var string
  | Lambda string expr
  | Let string expr expr
  | If expr expr expr
  | Collection expr
  | Index expr
  | Documents expr
  | Match expr expr
  | Get expr
  | Select "string list" expr
  | FindStrRegex expr expr
  | Count expr
  | GT expr expr
  | IsEmpty expr
  | Filter expr expr
  | Map expr expr
  | Paginate expr nat
  | Create expr expr
  | Update expr expr

text \<open>
  The header of the source file states how documents are stored: each has the data
  \<open>{filename: string; page: string}\<close>, in one collection with an index
  \<open>page_by_filename\<close> whose only term is \<open>data.filename\<close>. A document's reference is
  its position in the collection (documents are never removed by this bridge).
\<close>

record doc =
  filename :: string
  page :: string

record fauna_db =
  db_collection :: string
  docs :: "doc list"

definition doc_data :: "doc \<Rightarrow> val" where
  "doc_data d = VObj [(''filename'', VStr (filename d)), (''page'', VStr (page d))]"

definition doc_val :: "nat \<Rightarrow> doc \<Rightarrow> val" where
  "doc_val r d = VObj [(''ref'', VRef r), (''data'', doc_data d)]"

definition not_found :: thrown where
  "not_found = ErrorObj ''NotFound'' ''instance not found''"

definition value_not_found :: thrown where
  "value_not_found = ErrorObj ''NotFound'' ''value not found''"

definition invalid_argument :: thrown where
  "invalid_argument = ErrorObj ''BadRequest'' ''invalid argument''"

definition invalid_expression :: thrown where
  "invalid_expression = ErrorObj ''BadRequest'' ''invalid expression''"

definition invalid_ref :: thrown where
  "invalid_ref = ErrorObj ''BadRequest'' ''invalid ref''"

fun select_path :: "string list \<Rightarrow> val \<Rightarrow> thrown + val" where
  "select_path [] v = Inr v"
| "select_path (k # ks) (VObj kvs) =
     (case map_of kvs k of None \<Rightarrow> Inl value_not_found | Some v \<Rightarrow> select_path ks v)"
| "select_path (k # ks) _ = Inl value_not_found"

definition get_ref :: "doc list \<Rightarrow> nat \<Rightarrow> thrown + val" where
  "get_ref ds r = (if r < length ds then Inr (doc_val r (ds ! r)) else Inl not_found)"

text \<open>
  The results of a lambda over the elements of a set or array, in order: the first
  failure fails the whole query.
\<close>

fun keep :: "nat list \<Rightarrow> (thrown + val) list \<Rightarrow> thrown + nat list" where
  "keep (r # rs) (Inr (VBool b) # vs) =
     (case keep rs vs of Inl e \<Rightarrow> Inl e | Inr ks \<Rightarrow> Inr (if b then r # ks else ks))"
| "keep (r # rs) (Inr _ # vs) = Inl invalid_argument"
| "keep (r # rs) (Inl e # vs) = Inl e"
| "keep _ _ = Inr []"

fun collect :: "(thrown + val) list \<Rightarrow> thrown + val list" where
  "collect [] = Inr []"
| "collect (Inl e # vs) = Inl e"
| "collect (Inr v # vs) = (case collect vs of Inl e \<Rightarrow> Inl e | Inr ws \<Rightarrow> Inr (v # ws))"

definition match_val :: "nat \<times> string \<Rightarrow> val" where
  "match_val m = VObj [(''start'', VNum (int (fst m))),
                       (''end'', VNum (int (fst m + length (snd m)))),
                       (''data'', VStr (snd m))]"

text \<open>
  Modelled from the spec: the Fauna service is not part of the repository; the spec
  describes it as the backend that keeps one payload per path, filters by prefix on
  the server and answers a read of a missing document with an "empty result" failure.
  \<open>eval\<close> gives each combinator the meaning the service documents for it, on the
  single collection above. The regular-expression engine behind \<open>FindStrRegex\<close> is a
  parameter: \<open>rx pattern subject\<close> lists the matches (start and matched text).
  A collection or index reference is represented by its name. This function evaluates
  the combinators that only read.
\<close>

fun eval :: "(string \<Rightarrow> string \<Rightarrow> (nat \<times> string) list) \<Rightarrow> fauna_db \<Rightarrow> (string \<Rightarrow> val option) \<Rightarrow> expr
    \<Rightarrow> thrown + val" where
  "eval rx db env (Lit v) = Inr v"
| "eval rx db env (Var x) = (case env x of None \<Rightarrow> Inl invalid_expression | Some v \<Rightarrow> Inr v)"
| "eval rx db env (Lambda x b) = Inl invalid_expression"
| "eval rx db env (Let x e b) =
     (case eval rx db env e of Inl err \<Rightarrow> Inl err | Inr v \<Rightarrow> eval rx db (env(x \<mapsto> v)) b)"
| "eval rx db env (If c t e) =
     (case eval rx db env c of
        Inl err \<Rightarrow> Inl err
      | Inr (VBool b) \<Rightarrow> (if b then eval rx db env t else eval rx db env e)
      | Inr _ \<Rightarrow> Inl invalid_argument)"
| "eval rx db env (Collection e) =
     (case eval rx db env e of
        Inl err \<Rightarrow> Inl err
      | Inr (VStr n) \<Rightarrow> Inr (VStr n)
      | Inr _ \<Rightarrow> Inl invalid_argument)"
| "eval rx db env (Index e) =
     (case eval rx db env e of
        Inl err \<Rightarrow> Inl err
      | Inr (VStr n) \<Rightarrow> Inr (VStr n)
      | Inr _ \<Rightarrow> Inl invalid_argument)"
| "eval rx db env (Documents e) =
     (case eval rx db env e of
        Inl err \<Rightarrow> Inl err
      | Inr (VStr n) \<Rightarrow>
          (if n = db_collection db then Inr (VSet [0..<length (docs db)]) else Inl invalid_ref)
      | Inr _ \<Rightarrow> Inl invalid_argument)"
| "eval rx db env (Match i t) =
     (case eval rx db env i of
        Inl err \<Rightarrow> Inl err
      | Inr (VStr n) \<Rightarrow>
          (if n \<noteq> ''page_by_filename'' then Inl invalid_ref
           else case eval rx db env t of
                  Inl err \<Rightarrow> Inl err
                | Inr (VStr p) \<Rightarrow>
                    Inr (VSet (filter (\<lambda>r. filename (docs db ! r) = p) [0..<length (docs db)]))
                | Inr _ \<Rightarrow> Inr (VSet []))
      | Inr _ \<Rightarrow> Inl invalid_argument)"
| "eval rx db env (Get e) =
     (case eval rx db env e of
        Inl err \<Rightarrow> Inl err
      | Inr (VRef r) \<Rightarrow> get_ref (docs db) r
      | Inr (VSet []) \<Rightarrow> Inl not_found
      | Inr (VSet (r # rs)) \<Rightarrow> get_ref (docs db) r
      | Inr _ \<Rightarrow> Inl invalid_argument)"
| "eval rx db env (Select path e) =
     (case eval rx db env e of Inl err \<Rightarrow> Inl err | Inr v \<Rightarrow> select_path path v)"
| "eval rx db env (FindStrRegex s p) =
     (case eval rx db env s of
        Inl err \<Rightarrow> Inl err
      | Inr (VStr subject) \<Rightarrow>
          (case eval rx db env p of
             Inl err \<Rightarrow> Inl err
           | Inr (VStr pattern) \<Rightarrow> Inr (VArr (map match_val (rx pattern subject)))
           | Inr _ \<Rightarrow> Inl invalid_argument)
      | Inr _ \<Rightarrow> Inl invalid_argument)"
| "eval rx db env (Count e) =
     (case eval rx db env e of
        Inl err \<Rightarrow> Inl err
      | Inr (VArr xs) \<Rightarrow> Inr (VNum (int (length xs)))
      | Inr (VSet rs) \<Rightarrow> Inr (VNum (int (length rs)))
      | Inr _ \<Rightarrow> Inl invalid_argument)"
| "eval rx db env (GT a b) =
     (case eval rx db env a of
        Inl err \<Rightarrow> Inl err
      | Inr (VNum x) \<Rightarrow>
          (case eval rx db env b of
             Inl err \<Rightarrow> Inl err
           | Inr (VNum y) \<Rightarrow> Inr (VBool (x > y))
           | Inr _ \<Rightarrow> Inl invalid_argument)
      | Inr _ \<Rightarrow> Inl invalid_argument)"
| "eval rx db env (IsEmpty e) =
     (case eval rx db env e of
        Inl err \<Rightarrow> Inl err
      | Inr (VSet rs) \<Rightarrow> Inr (VBool (rs = []))
      | Inr (VArr xs) \<Rightarrow> Inr (VBool (xs = []))
      | Inr _ \<Rightarrow> Inl invalid_argument)"
| "eval rx db env (Filter s l) =
     (case l of
        Lambda x b \<Rightarrow>
          (case eval rx db env s of
             Inl err \<Rightarrow> Inl err
           | Inr (VSet rs) \<Rightarrow>
               (case keep rs (map (\<lambda>r. eval rx db (env(x \<mapsto> VRef r)) b) rs) of
                  Inl err \<Rightarrow> Inl err
                | Inr ks \<Rightarrow> Inr (VSet ks))
           | Inr _ \<Rightarrow> Inl invalid_argument)
      | _ \<Rightarrow> Inl invalid_argument)"
| "eval rx db env (Map c l) =
     (case l of
        Lambda x b \<Rightarrow>
          (case eval rx db env c of
             Inl err \<Rightarrow> Inl err
           | Inr (VObj kvs) \<Rightarrow>
               (case map_of kvs ''data'' of
                  Some (VArr xs) \<Rightarrow>
                    (case collect (map (\<lambda>v. eval rx db (env(x \<mapsto> v)) b) xs) of
                       Inl err \<Rightarrow> Inl err
                     | Inr ys \<Rightarrow> Inr (VObj (AList.update ''data'' (VArr ys) kvs)))
                | _ \<Rightarrow> Inl invalid_argument)
           | Inr (VArr xs) \<Rightarrow>
               (case collect (map (\<lambda>v. eval rx db (env(x \<mapsto> v)) b) xs) of
                  Inl err \<Rightarrow> Inl err
                | Inr ys \<Rightarrow> Inr (VArr ys))
           | Inr _ \<Rightarrow> Inl invalid_argument)
      | _ \<Rightarrow> Inl invalid_argument)"
| "eval rx db env (Paginate s n) =
     (case eval rx db env s of
        Inl err \<Rightarrow> Inl err
      | Inr (VSet rs) \<Rightarrow>
          Inr (VObj ((''data'', VArr (map VRef (take n rs))) #
                     (if n < length rs then [(''after'', VArr [VRef (rs ! n)])] else [])))
      | Inr _ \<Rightarrow> Inl invalid_argument)"
| "eval rx db env (Create c p) = Inl invalid_expression"
| "eval rx db env (Update r p) = Inl invalid_expression"

text \<open>
  The data of a write: \<open>Create\<close> needs both fields of a document, \<open>Update\<close> replaces
  the fields it is given and keeps the others.
\<close>

definition data_fields :: "val \<Rightarrow> (string \<times> val) list option" where
  "data_fields params =
    (case params of
       VObj kvs \<Rightarrow> (case map_of kvs ''data'' of Some (VObj fs) \<Rightarrow> Some fs | _ \<Rightarrow> None)
     | _ \<Rightarrow> None)"

definition str_field :: "(string \<times> val) list \<Rightarrow> string \<Rightarrow> string option \<Rightarrow> string option" where
  "str_field fs k dflt =
    (case map_of fs k of None \<Rightarrow> dflt | Some (VStr s) \<Rightarrow> Some s | Some _ \<Rightarrow> None)"

definition new_doc :: "val \<Rightarrow> doc option" where
  "new_doc params =
    (case data_fields params of
       None \<Rightarrow> None
     | Some fs \<Rightarrow>
        (case (str_field fs ''filename'' None, str_field fs ''page'' None) of
           (Some f, Some p) \<Rightarrow> Some \<lparr>filename = f, page = p\<rparr>
         | _ \<Rightarrow> None))"

definition merged_doc :: "val \<Rightarrow> doc \<Rightarrow> doc option" where
  "merged_doc params d =
    (case data_fields params of
       None \<Rightarrow> None
     | Some fs \<Rightarrow>
        (case (str_field fs ''filename'' (Some (filename d)), str_field fs ''page'' (Some (page d))) of
           (Some f, Some p) \<Rightarrow> Some \<lparr>filename = f, page = p\<rparr>
         | _ \<Rightarrow> None))"

text \<open>
  Modelled from the spec: the writes of the Fauna service ("upsert semantics: creates
  if absent, overwrites if present"). A write is evaluated where the bridge's query has
  it, at the top of a query under \<open>Let\<close> and \<open>If\<close>; \<open>Create\<close> appends a document and
  \<open>Update\<close> replaces the data of the referenced one. Everything else is read-only and
  goes to \<open>eval\<close>.
\<close>

fun exec :: "(string \<Rightarrow> string \<Rightarrow> (nat \<times> string) list) \<Rightarrow> fauna_db \<Rightarrow> (string \<Rightarrow> val option) \<Rightarrow> expr
    \<Rightarrow> (thrown + val) \<times> fauna_db" where
  "exec rx db env (Let x e b) =
     (case eval rx db env e of Inl err \<Rightarrow> (Inl err, db) | Inr v \<Rightarrow> exec rx db (env(x \<mapsto> v)) b)"
| "exec rx db env (If c t e) =
     (case eval rx db env c of
        Inl err \<Rightarrow> (Inl err, db)
      | Inr (VBool b) \<Rightarrow> (if b then exec rx db env t else exec rx db env e)
      | Inr _ \<Rightarrow> (Inl invalid_argument, db))"
| "exec rx db env (Create c p) =
     (case eval rx db env c of
        Inl err \<Rightarrow> (Inl err, db)
      | Inr (VStr n) \<Rightarrow>
          (if n \<noteq> db_collection db then (Inl invalid_ref, db)
           else case eval rx db env p of
                  Inl err \<Rightarrow> (Inl err, db)
                | Inr params \<Rightarrow>
                    (case new_doc params of
                       None \<Rightarrow> (Inl invalid_argument, db)
                     | Some d \<Rightarrow>
                         (Inr (doc_val (length (docs db)) d), db\<lparr>docs := docs db @ [d]\<rparr>)))
      | Inr _ \<Rightarrow> (Inl invalid_argument, db))"
| "exec rx db env (Update r p) =
     (case eval rx db env r of
        Inl err \<Rightarrow> (Inl err, db)
      | Inr (VRef i) \<Rightarrow>
          (if \<not> i < length (docs db) then (Inl not_found, db)
           else case eval rx db env p of
                  Inl err \<Rightarrow> (Inl err, db)
                | Inr params \<Rightarrow>
                    (case merged_doc params (docs db ! i) of
                       None \<Rightarrow> (Inl invalid_argument, db)
                     | Some d \<Rightarrow> (Inr (doc_val i d), db\<lparr>docs := (docs db)[i := d]\<rparr>)))
      | Inr _ \<Rightarrow> (Inl invalid_argument, db))"
| "exec rx db env e = (eval rx db env e, db)"

text \<open>
  The client's \<open>query\<close> call against this service: one round trip, which fails when the
  service cannot be reached or rejects the access token, and otherwise runs the query as
  one transaction (a failing query changes nothing).
\<close>

record fauna_world =
  database :: fauna_db
  secret_valid :: bool
  reachable :: bool

definition fauna_query ::
  "(string \<Rightarrow> string \<Rightarrow> (nat \<times> string) list) \<Rightarrow> expr \<Rightarrow> fauna_world \<Rightarrow> (thrown + val) \<times> fauna_world" where
  "fauna_query rx q w =
    (if \<not> reachable w then (Inl (ErrorObj ''FetchError'' ''request to the database failed''), w)
     else if \<not> secret_valid w then (Inl (ErrorObj ''Unauthorized'' ''unauthorized''), w)
     else case exec rx (database w) Map.empty q of
            (Inl e, _) \<Rightarrow> (Inl e, w)
          | (Inr v, db') \<Rightarrow> (Inr v, w\<lparr>database := db'\<rparr>))"

text \<open>
  A regular-expression engine for the patterns the bridge builds from a prefix \<open>q\<close>
  without metacharacters: \<open>^q\<close> matches once, at the start of a subject that begins
  with \<open>q\<close>. It serves to run the examples; a pattern of another shape is given no
  match.
\<close>

definition literal_rx :: "string \<Rightarrow> string \<Rightarrow> (nat \<times> string) list" where
  "literal_rx pattern subject =
    (case pattern of
       [] \<Rightarrow> []
     | c # q \<Rightarrow> (if c = CHR ''^'' \<and> prefix q subject then [(0, q)] else []))"

section \<open>The bridges\<close>

text \<open>
  The fields the three revisions of \<open>FaunaBridge\<close> hold between them. Every operation
  takes the world it talks to and returns it with its result: \<open>Inl\<close> is a rejected
  promise (a thrown value), \<open>Inr\<close> the value the promise resolves to.
  The \<open>console.log\<close> calls of the REST revisions write to the console only and are
  left out.
\<close>

record FaunaBridge =
  rootPath :: string
  collection :: string
  domain :: string

text \<open>\<open>v.k\<close> for a JavaScript value \<open>v\<close> (\<open>k\<close> is never a built-in property here).\<close>

fun get_prop :: "val \<Rightarrow> string \<Rightarrow> thrown + val" where
  "get_prop (VObj kvs) k = Inr (case map_of kvs k of None \<Rightarrow> VUndef | Some v \<Rightarrow> v)"
| "get_prop VUndef k = Inl (ErrorObj ''TypeError'' ''Cannot read properties of undefined'')"
| "get_prop VNull k = Inl (ErrorObj ''TypeError'' ''Cannot read properties of null'')"
| "get_prop _ k = Inr VUndef"

subsection \<open>The query-DSL revision (packages/@tinacms/graphql, first revision)\<close>

definition readDir_query :: "string \<Rightarrow> string \<Rightarrow> expr" where
  "readDir_query coll filepath =
    Map
      (Paginate
        (Filter
          (Documents (Collection (Lit (VStr coll))))
          (Lambda ''doc''
            (GT
              (Count
                (FindStrRegex
                  (Select [''data'', ''filename''] (Get (Var ''doc'')))
                  (Lit (VStr (''^'' @ filepath)))))
              (Lit (VNum 0)))))
        12000)
      (Lambda ''docref'' (Select [''data'', ''filename''] (Get (Var ''docref''))))"

definition get_query :: "string \<Rightarrow> expr" where
  "get_query filepath =
    Select [''data'', ''page''] (Get (Match (Index (Lit (VStr ''page_by_filename''))) (Lit (VStr filepath))))"

definition page_params :: "string \<Rightarrow> string \<Rightarrow> val" where
  "page_params filepath data =
    VObj [(''data'', VObj [(''filename'', VStr filepath), (''page'', VStr data)])]"

definition put_query :: "string \<Rightarrow> string \<Rightarrow> string \<Rightarrow> expr" where
  "put_query coll filepath data =
    Let ''match'' (Match (Index (Lit (VStr ''page_by_filename''))) (Lit (VStr filepath)))
      (If (IsEmpty (Var ''match''))
        (Create (Lit (VStr coll)) (Lit (page_params filepath data)))
        (Update (Select [''ref''] (Get (Var ''match''))) (Lit (page_params filepath data))))"

definition unauthorized_message :: string where
  "unauthorized_message =
     ''Unauthorized request to Fauna Database: please ensure your access token is valid.''"

definition unknown_message :: string where
  "unknown_message =
     ''Unknown error request to Fauna Database: please ensure your access token is valid.''"

definition dsl_readDir ::
  "(expr \<Rightarrow> 'w \<Rightarrow> (thrown + val) \<times> 'w) \<Rightarrow> FaunaBridge \<Rightarrow> string \<Rightarrow> 'w \<Rightarrow> (thrown + val) \<times> 'w" where
  "dsl_readDir client this filepath w =
    (case client (readDir_query (collection this) filepath) w of
       (Inl e, w') \<Rightarrow> (Inl e, w')
     | (Inr documents, w') \<Rightarrow>
        (case get_prop documents ''data'' of
           Inl e \<Rightarrow> (Inl e, w')
         | Inr d \<Rightarrow> (if d \<noteq> VUndef then (Inr d, w') else (Inr (VArr []), w'))))"

definition dsl_supportsBuilding :: "FaunaBridge \<Rightarrow> bool" where
  "dsl_supportsBuilding this = True"

definition dsl_glob ::
  "(expr \<Rightarrow> 'w \<Rightarrow> (thrown + val) \<times> 'w) \<Rightarrow> FaunaBridge \<Rightarrow> string \<Rightarrow> 'w \<Rightarrow> (thrown + val) \<times> 'w" where
  "dsl_glob client this pattern w = dsl_readDir client this pattern w"

definition dsl_get ::
  "(expr \<Rightarrow> 'w \<Rightarrow> (thrown + val) \<times> 'w) \<Rightarrow> FaunaBridge \<Rightarrow> string \<Rightarrow> 'w \<Rightarrow> (thrown + val) \<times> 'w" where
  "dsl_get client this filepath w =
    (case client (get_query filepath) w of
       (Inr pg, w') \<Rightarrow> (if pg \<noteq> VUndef then (Inr pg, w') else (Inr (VStr []), w'))
     | (Inl e, w') \<Rightarrow>
        (if instanceof_Error e
         then (Inl (GraphQLError unauthorized_message (Some e) (message e)), w')
         else (Inl (GraphQLError unknown_message None []), w')))"

definition dsl_put ::
  "(expr \<Rightarrow> 'w \<Rightarrow> (thrown + val) \<times> 'w) \<Rightarrow> FaunaBridge \<Rightarrow> string \<Rightarrow> string \<Rightarrow> 'w
    \<Rightarrow> (thrown + val) \<times> 'w" where
  "dsl_put client this filepath data w =
    (case client (put_query (collection this) filepath data) w of
       (Inl e, w') \<Rightarrow> (Inl e, w')
     | (Inr _, w') \<Rightarrow> (Inr VUndef, w'))"

definition dsl_putConfig ::
  "(expr \<Rightarrow> 'w \<Rightarrow> (thrown + val) \<times> 'w) \<Rightarrow> FaunaBridge \<Rightarrow> string \<Rightarrow> string \<Rightarrow> 'w
    \<Rightarrow> (thrown + val) \<times> 'w" where
  "dsl_putConfig client this filepath data w =
    (case dsl_put client this filepath data w of
       (Inl e, w') \<Rightarrow> (Inl e, w')
     | (Inr _, w') \<Rightarrow> (Inr VUndef, w'))"

subsection \<open>Requests and responses of \<open>fetch\<close>\<close>

datatype http_method = GET | POST | DELETE

text \<open>
  The body of a request is a string. \<open>JSON_stringify v\<close> is the JSON text of \<open>v\<close>, which
  the receiver parses back to \<open>v\<close>; \<open>Text s\<close> is the string \<open>s\<close> where it is not JSON text.
\<close>

datatype body = NoBody | JSON_stringify val | Text string

record request =
  req_url :: string
  req_method :: http_method
  req_body :: body

text \<open>
  A response: \<open>ok\<close> (the status is in the range 200 to 299) and what \<open>json()\<close> parses
  from the body, \<open>None\<close> when the body is not JSON text.
\<close>

record response =
  ok :: bool
  status :: nat
  json_body :: "val option"

definition response_json :: "response \<Rightarrow> thrown + val" where
  "response_json r =
    (case json_body r of
       None \<Rightarrow> Inl (ErrorObj ''SyntaxError'' ''Unexpected end of JSON input'')
     | Some v \<Rightarrow> Inr v)"

text \<open>\<open>{...}.toString()\<close> of an object literal, whatever its fields.\<close>

definition Object_toString :: "(string \<times> val) list \<Rightarrow> string" where
  "Object_toString kvs = ''[object Object]''"

fun split_on :: "char \<Rightarrow> string \<Rightarrow> string list" where
  "split_on c [] = [[]]"
| "split_on c (x # xs) =
     (if x = c then [] # split_on c xs
      else case split_on c xs of w # ws \<Rightarrow> (x # w) # ws | [] \<Rightarrow> [[x]])"

fun join :: "string \<Rightarrow> string list \<Rightarrow> string" where
  "join sep [] = []"
| "join sep [w] = w"
| "join sep (w # ws) = w @ sep @ join sep ws"

subsection \<open>The REST revision of packages/@tinacms/graphql (last revision in the file)\<close>

definition rest_readDir ::
  "(request \<Rightarrow> 'w \<Rightarrow> (thrown + response) \<times> 'w) \<Rightarrow> FaunaBridge \<Rightarrow> string \<Rightarrow> 'w \<Rightarrow> (thrown + val) \<times> 'w" where
  "rest_readDir fetch this filepath w =
    (case fetch \<lparr>req_url = domain this @ ''/page-dir'', req_method = POST,
                 req_body = Text (Object_toString [(''filepath'', VStr filepath)])\<rparr> w of
       (Inl e, w') \<Rightarrow> (Inl e, w')
     | (Inr r, w') \<Rightarrow>
        (case response_json r of
           Inl e \<Rightarrow> (Inl e, w')
         | Inr documents \<Rightarrow>
            (case get_prop documents ''data'' of
               Inl e \<Rightarrow> (Inl e, w')
             | Inr d \<Rightarrow> (if d \<noteq> VUndef then (Inr d, w') else (Inr (VArr []), w')))))"

definition rest_supportsBuilding :: "FaunaBridge \<Rightarrow> bool" where
  "rest_supportsBuilding this = True"

definition rest_delete ::
  "(request \<Rightarrow> 'w \<Rightarrow> (thrown + response) \<times> 'w) \<Rightarrow> FaunaBridge \<Rightarrow> string \<Rightarrow> 'w \<Rightarrow> (thrown + val) \<times> 'w" where
  "rest_delete fetch this filepath w =
    (case fetch \<lparr>req_url = domain this @ ''/page'', req_method = DELETE,
                 req_body = Text (Object_toString [(''filepath'', VStr filepath)])\<rparr> w of
       (Inl e, w') \<Rightarrow> (Inl e, w')
     | (Inr _, w') \<Rightarrow> (Inr VUndef, w'))"

definition rest_glob ::
  "(request \<Rightarrow> 'w \<Rightarrow> (thrown + response) \<times> 'w) \<Rightarrow> FaunaBridge \<Rightarrow> string \<Rightarrow> 'w \<Rightarrow> (thrown + val) \<times> 'w" where
  "rest_glob fetch this pattern w = rest_readDir fetch this pattern w"

definition rest_get ::
  "(request \<Rightarrow> 'w \<Rightarrow> (thrown + response) \<times> 'w) \<Rightarrow> FaunaBridge \<Rightarrow> string \<Rightarrow> 'w \<Rightarrow> (thrown + val) \<times> 'w" where
  "rest_get fetch this filepath w =
    (case fetch \<lparr>req_url = domain this @ ''/page?filepath='' @ filepath, req_method = GET,
                 req_body = NoBody\<rparr> w of
       (Inl e, w') \<Rightarrow> (Inl e, w')
     | (Inr r, w') \<Rightarrow>
        (case response_json r of
           Inl e \<Rightarrow> (Inl e, w')
         | Inr pg \<Rightarrow> (if pg \<noteq> VUndef then (Inr pg, w') else (Inr (VStr []), w'))))"

definition rest_put ::
  "(request \<Rightarrow> 'w \<Rightarrow> (thrown + response) \<times> 'w) \<Rightarrow> FaunaBridge \<Rightarrow> string \<Rightarrow> string \<Rightarrow> 'w
    \<Rightarrow> (thrown + val) \<times> 'w" where
  "rest_put fetch this filepath data w =
    (let path = join ''/'' (butlast (split_on (CHR ''/'') filepath))
     in case fetch \<lparr>req_url = domain this @ ''/page'', req_method = POST,
                     req_body = Text (Object_toString
                       [(''filename'', VStr filepath), (''path'', VStr path), (''data'', VStr data)])\<rparr> w of
          (Inl e, w') \<Rightarrow> (Inl e, w')
        | (Inr r, w') \<Rightarrow>
           (case response_json r of
              Inl e \<Rightarrow> (Inl e, w')
            | Inr _ \<Rightarrow> (Inr VUndef, w')))"

definition rest_putConfig ::
  "(request \<Rightarrow> 'w \<Rightarrow> (thrown + response) \<times> 'w) \<Rightarrow> FaunaBridge \<Rightarrow> string \<Rightarrow> string \<Rightarrow> 'w
    \<Rightarrow> (thrown + val) \<times> 'w" where
  "rest_putConfig fetch this filepath data w =
    (case rest_put fetch this filepath data w of
       (Inl e, w') \<Rightarrow> (Inl e, w')
     | (Inr _, w') \<Rightarrow> (Inr VUndef, w'))"

subsection \<open>The datalayer revision (packages/@tinacms/datalayer)\<close>

definition dl_readDir ::
  "(request \<Rightarrow> 'w \<Rightarrow> (thrown + response) \<times> 'w) \<Rightarrow> FaunaBridge \<Rightarrow> string \<Rightarrow> 'w \<Rightarrow> (thrown + val) \<times> 'w" where
  "dl_readDir fetch this filepath w =
    (case fetch \<lparr>req_url = domain this @ ''/page-dir'', req_method = POST,
                 req_body = JSON_stringify (VObj [(''filepath'', VStr filepath)])\<rparr> w of
       (Inl e, w') \<Rightarrow> (Inl e, w')
     | (Inr documents, w') \<Rightarrow>
        (if ok documents then
           (case response_json documents of
              Inl e \<Rightarrow> (Inl e, w')
            | Inr result \<Rightarrow>
               (case get_prop result ''data'' of
                  Inl e \<Rightarrow> (Inl e, w')
                | Inr d \<Rightarrow> (if d \<noteq> VUndef then (Inr d, w') else (Inr (VArr []), w'))))
         else (Inr (VArr []), w')))"

definition dl_supportsBuilding :: "FaunaBridge \<Rightarrow> bool" where
  "dl_supportsBuilding this = True"

definition dl_delete ::
  "(request \<Rightarrow> 'w \<Rightarrow> (thrown + response) \<times> 'w) \<Rightarrow> FaunaBridge \<Rightarrow> string \<Rightarrow> 'w \<Rightarrow> (thrown + val) \<times> 'w" where
  "dl_delete fetch this filepath w =
    (case fetch \<lparr>req_url = domain this @ ''/page'', req_method = DELETE,
                 req_body = JSON_stringify (VObj [(''filepath'', VStr filepath)])\<rparr> w of
       (Inl e, w') \<Rightarrow> (Inl e, w')
     | (Inr _, w') \<Rightarrow> (Inr VUndef, w'))"

definition dl_glob ::
  "(request \<Rightarrow> 'w \<Rightarrow> (thrown + response) \<times> 'w) \<Rightarrow> FaunaBridge \<Rightarrow> string \<Rightarrow> 'w \<Rightarrow> (thrown + val) \<times> 'w" where
  "dl_glob fetch this pattern w = dl_readDir fetch this pattern w"

definition dl_get ::
  "(request \<Rightarrow> 'w \<Rightarrow> (thrown + response) \<times> 'w) \<Rightarrow> FaunaBridge \<Rightarrow> string \<Rightarrow> 'w \<Rightarrow> (thrown + val) \<times> 'w" where
  "dl_get fetch this filepath w =
    (case fetch \<lparr>req_url = domain this @ ''/page?filepath='' @ filepath, req_method = GET,
                 req_body = NoBody\<rparr> w of
       (Inl e, w') \<Rightarrow> (Inl e, w')
     | (Inr pg, w') \<Rightarrow>
        (if ok pg then
           (case response_json pg of Inl e \<Rightarrow> (Inl e, w') | Inr v \<Rightarrow> (Inr v, w'))
         else (Inr (VStr []), w')))"

definition dl_put ::
  "(request \<Rightarrow> 'w \<Rightarrow> (thrown + response) \<times> 'w) \<Rightarrow> FaunaBridge \<Rightarrow> string \<Rightarrow> string \<Rightarrow> 'w
    \<Rightarrow> (thrown + val) \<times> 'w" where
  "dl_put fetch this filepath data w =
    (case fetch \<lparr>req_url = domain this @ ''/page'', req_method = POST,
                 req_body = JSON_stringify (VObj [(''filepath'', VStr filepath), (''data'', VStr data)])\<rparr> w of
       (Inl e, w') \<Rightarrow> (Inl e, w')
     | (Inr r, w') \<Rightarrow>
        (if ok r then
           (case response_json r of Inl e \<Rightarrow> (Inl e, w') | Inr v \<Rightarrow> (Inr v, w'))
         else (Inr (VStr []), w')))"

definition dl_putConfig ::
  "(request \<Rightarrow> 'w \<Rightarrow> (thrown + response) \<times> 'w) \<Rightarrow> FaunaBridge \<Rightarrow> string \<Rightarrow> string \<Rightarrow> 'w
    \<Rightarrow> (thrown + val) \<times> 'w" where
  "dl_putConfig fetch this filepath data w =
    (case dl_put fetch this filepath data w of
       (Inl e, w') \<Rightarrow> (Inl e, w')
     | (Inr _, w') \<Rightarrow> (Inr VUndef, w'))"

subsection \<open>The operations each revision declares\<close>

datatype variant = QueryDSL | RestGraphql | RestDatalayer

text \<open>The methods of each class, in the order of the source (\<open>readDir\<close> is private).\<close>

fun bridge_methods :: "variant \<Rightarrow> string list" where
  "bridge_methods QueryDSL =
     [''readDir'', ''supportsBuilding'', ''glob'', ''get'', ''putConfig'', ''put'']"
| "bridge_methods RestGraphql =
     [''readDir'', ''supportsBuilding'', ''delete'', ''glob'', ''get'', ''putConfig'', ''put'']"
| "bridge_methods RestDatalayer =
     [''readDir'', ''supportsBuilding'', ''delete'', ''glob'', ''get'', ''putConfig'', ''put'']"

subsection \<open>The page service behind the REST revisions\<close>

definition ack :: response where
  "ack = \<lparr>ok = True, status = 200, json_body = Some (VObj [])\<rparr>"

definition bad_request :: response where
  "bad_request = \<lparr>ok = False, status = 400, json_body = None\<rparr>"

definition page_absent :: response where
  "page_absent = \<lparr>ok = False, status = 404, json_body = None\<rparr>"

definition body_fields :: "body \<Rightarrow> (string \<times> val) list option" where
  "body_fields b = (case b of JSON_stringify (VObj kvs) \<Rightarrow> Some kvs | _ \<Rightarrow> None)"

text \<open>
  Modelled from the spec: the HTTP service the REST revisions call is not part of the
  repository; the spec gives its wire shapes. List: \<open>POST {endpoint}/page-dir\<close> with
  body \<open>{filepath}\<close> answers \<open>{data: string[]}\<close>, the stored paths that start with the
  given prefix. Read: \<open>GET {endpoint}/page?filepath=<path>\<close> answers the payload or
  empty. Write: \<open>POST {endpoint}/page\<close> with body \<open>{filepath, data}\<close> is acknowledged.
  Delete: \<open>DELETE {endpoint}/page\<close> with body \<open>{filepath}\<close>. The service keeps one
  payload per path. The path of a read is the query value as written in the URL. A
  missing page is answered with status 404 and no body, a request whose body does not
  parse to the expected object with status 400.
\<close>

definition page_service ::
  "string \<Rightarrow> request \<Rightarrow> (string \<times> string) list \<Rightarrow> (thrown + response) \<times> (string \<times> string) list" where
  "page_service endpoint req pages =
    (if req_method req = POST \<and> req_url req = endpoint @ ''/page-dir'' then
       (case body_fields (req_body req) of
          None \<Rightarrow> (Inr bad_request, pages)
        | Some kvs \<Rightarrow>
           (case map_of kvs ''filepath'' of
              Some (VStr q) \<Rightarrow>
                (Inr \<lparr>ok = True, status = 200,
                      json_body = Some (VObj [(''data'',
                        VArr (map VStr (filter (prefix q) (map fst pages))))])\<rparr>, pages)
            | _ \<Rightarrow> (Inr bad_request, pages)))
     else if req_method req = POST \<and> req_url req = endpoint @ ''/page'' then
       (case body_fields (req_body req) of
          None \<Rightarrow> (Inr bad_request, pages)
        | Some kvs \<Rightarrow>
           (case (map_of kvs ''filepath'', map_of kvs ''data'') of
              (Some (VStr p), Some (VStr v)) \<Rightarrow> (Inr ack, AList.update p v pages)
            | _ \<Rightarrow> (Inr bad_request, pages)))
     else if req_method req = DELETE \<and> req_url req = endpoint @ ''/page'' then
       (case body_fields (req_body req) of
          None \<Rightarrow> (Inr bad_request, pages)
        | Some kvs \<Rightarrow>
           (case map_of kvs ''filepath'' of
              Some (VStr p) \<Rightarrow> (Inr ack, AList.delete p pages)
            | _ \<Rightarrow> (Inr bad_request, pages)))
     else if req_method req = GET then
       (case strip_prefix (endpoint @ ''/page?filepath='') (req_url req) of
          None \<Rightarrow> (Inr page_absent, pages)
        | Some p \<Rightarrow>
           (case map_of pages p of
              None \<Rightarrow> (Inr page_absent, pages)
            | Some v \<Rightarrow> (Inr \<lparr>ok = True, status = 200, json_body = Some (VStr v)\<rparr>, pages)))
     else (Inr page_absent, pages))"

text \<open>Counting the round trips an operation makes.\<close>

definition counted :: "('q \<Rightarrow> 'w \<Rightarrow> 'r \<times> 'w) \<Rightarrow> 'q \<Rightarrow> 'w \<times> nat \<Rightarrow> 'r \<times> ('w \<times> nat)" where
  "counted call q wn = (case call q (fst wn) of (r, w') \<Rightarrow> (r, (w', Suc (snd wn))))"

text \<open>
  The error kind the query-DSL bridge reports an authentication failure with: a
  \<open>GraphQLError\<close> whose message is the "Unauthorized request" one.
\<close>

definition auth_error_kind :: "thrown \<Rightarrow> bool" where
  "auth_error_kind e = (case e of GraphQLError m _ _ \<Rightarrow> m = unauthorized_message | _ \<Rightarrow> False)"

subsection \<open>Example bridges, backends and networks\<close>

definition example_bridge :: FaunaBridge where
  "example_bridge = \<lparr>rootPath = ''/'', collection = ''pages'', domain = ''https://fauna.example''\<rparr>"

definition fauna_world_of :: "doc list \<Rightarrow> fauna_world" where
  "fauna_world_of ds =
    \<lparr>database = \<lparr>db_collection = ''pages'', docs = ds\<rparr>, secret_valid = True, reachable = True\<rparr>"

definition example_docs :: "doc list" where
  "example_docs =
    [\<lparr>filename = ''a/x.md'', page = ''X''\<rparr>,
     \<lparr>filename = ''b/y.md'', page = ''Y''\<rparr>,
     \<lparr>filename = ''a/z.md'', page = ''Z''\<rparr>]"

text \<open>\<open>n\<close> documents with distinct names: of 0, 1, 2, ... letters \<open>a\<close>.\<close>

definition numbered_docs :: "nat \<Rightarrow> doc list" where
  "numbered_docs n = map (\<lambda>i. \<lparr>filename = replicate i (CHR ''a''), page = []\<rparr>) [0..<n]"

text \<open>A network on which every request fails, and a server that answers every request with status 500.\<close>

definition network_down :: "'q \<Rightarrow> 'w \<Rightarrow> (thrown + 'r) \<times> 'w" where
  "network_down q w = (Inl (ErrorObj ''TypeError'' ''Failed to fetch''), w)"

definition server_error :: "request \<Rightarrow> 'w \<Rightarrow> (thrown + response) \<times> 'w" where
  "server_error req w = (Inr \<lparr>ok = False, status = 500, json_body = None\<rparr>, w)"

section \<open>The connection resolver: theorems\<close>

lemma localhost_is_local:
  "str_includes u ''localhost'' \<Longrightarrow> parseURL_with U M u = Inr local_connection"
  by (simp add: parseURL_with_def)





text \<open>
  C10. \<open>parseURL\<close> classifies by substring, not by host: an input that contains
  \<open>localhost\<close> anywhere gives the local variant and does not throw, whatever the URL
  parser and the path pattern would do with it (they are arbitrary here, so they are
  not consulted); hence a thrown result, from the parser or from the format check, is
  only possible for an input without \<open>localhost\<close>.
\<close>

theorem parseURL_localhost_by_substring:
  assumes "str_includes u ''localhost''"
  shows "parseURL_with U M u = Inr local_connection \<and>
         (\<forall>e. parseURL_with U M u \<noteq> Inl e) \<and>
         parseURL u = Inr local_connection"
  using assms by (simp add: parseURL_def localhost_is_local)

theorem parseURL_localhost_by_substring_witness:
  "str_includes ''notlocalhost.example.com'' ''localhost'' \<and>
   parseURL_with (\<lambda>s. Inl (ErrorObj ''TypeError'' ''Invalid URL'')) (\<lambda>s. None)
     ''notlocalhost.example.com'' = Inr local_connection \<and>
   (\<forall>e. parseURL_with (\<lambda>s. Inl (ErrorObj ''TypeError'' ''Invalid URL'')) (\<lambda>s. None)
     ''notlocalhost.example.com'' \<noteq> Inl e) \<and>
   parseURL ''notlocalhost.example.com'' = Inr local_connection"
proof -
  have h: "str_includes ''notlocalhost.example.com'' ''localhost''"
    by (simp add: str_includes_def sublist_code)
  show ?thesis
    using h parseURL_localhost_by_substring [OF h,
      of "\<lambda>s. Inl (ErrorObj ''TypeError'' ''Invalid URL'')" "\<lambda>s. None"]
    by blast
qed

section \<open>The store capability flags: theorem\<close>

text \<open>
  C9. \<open>supportsIndexing\<close> is false for both revisions of \<open>FaunaStore\<close>;
  \<open>supportsSeeding\<close> is true for the first revision and false for the second; and each
  flag is a constant of the revision: it has the same value for every state the
  wrapped store can be in.
\<close>

theorem store_capability_flags:
  "supportsIndexing (FaunaStore_first s) = False \<and>
   supportsIndexing (FaunaStore_second s) = False \<and>
   supportsSeeding (FaunaStore_first s) = True \<and>
   supportsSeeding (FaunaStore_second s) = False \<and>
   supportsSeeding (FaunaStore_first s) = supportsSeeding (FaunaStore_first s') \<and>
   supportsSeeding (FaunaStore_second s) = supportsSeeding (FaunaStore_second s') \<and>
   supportsIndexing (FaunaStore_first s) = supportsIndexing (FaunaStore_first s') \<and>
   supportsIndexing (FaunaStore_second s) = supportsIndexing (FaunaStore_second s')"
  by simp

section \<open>The bridges against their backends: lemmas\<close>

subsection \<open>Queries of the query-DSL revision\<close>

lemma keep_map:
  "(\<And>r. r \<in> set rs \<Longrightarrow> f r = Inr (VBool (P r))) \<Longrightarrow> keep rs (map f rs) = Inr (filter P rs)"
  by (induction rs) auto

lemma collect_map:
  "(\<And>x. x \<in> set xs \<Longrightarrow> f x = Inr (g x)) \<Longrightarrow> collect (map f xs) = Inr (map g xs)"
  by (induction xs) auto

lemma eval_filename:
  assumes "r < length (docs db)" and "env x = Some (VRef r)"
  shows "eval rx db env (Select [''data'', ''filename''] (Get (Var x))) = Inr (VStr (filename (docs db ! r)))"
  using assms by (simp add: get_ref_def doc_val_def doc_data_def)

lemma eval_matches:
  assumes "r < length (docs db)" and "env ''doc'' = Some (VRef r)"
  shows "eval rx db env
      (GT (Count (FindStrRegex (Select [''data'', ''filename''] (Get (Var ''doc''))) (Lit (VStr pat))))
          (Lit (VNum 0)))
    = Inr (VBool (rx pat (filename (docs db ! r)) \<noteq> []))"
  using assms by (simp add: get_ref_def doc_val_def doc_data_def)

lemma eval_Filter:
  assumes "eval rx db env s = Inr (VSet rs)"
    and "\<And>r. r \<in> set rs \<Longrightarrow> eval rx db (env(x \<mapsto> VRef r)) b = Inr (VBool (P r))"
  shows "eval rx db env (Filter s (Lambda x b)) = Inr (VSet (filter P rs))"
  using assms(1) keep_map [of rs "\<lambda>r. eval rx db (env(x \<mapsto> VRef r)) b" P, OF assms(2)]
  by simp

lemma eval_Map_page:
  assumes "eval rx db env c = Inr (VObj ((''data'', VArr xs) # rest))"
    and "\<And>v. v \<in> set xs \<Longrightarrow> eval rx db (env(x \<mapsto> v)) b = Inr (g v)"
  shows "eval rx db env (Map c (Lambda x b)) = Inr (VObj ((''data'', VArr (map g xs)) # rest))"
  using assms(1) collect_map [of xs "\<lambda>v. eval rx db (env(x \<mapsto> v)) b" g, OF assms(2)]
  by simp

lemma eval_readDir_query:
  assumes "coll = db_collection db"
  shows "\<exists>rest. eval rx db env (readDir_query coll q) =
    Inr (VObj ((''data'', VArr (map (\<lambda>r. VStr (filename (docs db ! r)))
       (take 12000 (filter (\<lambda>r. rx (''^'' @ q) (filename (docs db ! r)) \<noteq> []) [0..<length (docs db)])))) # rest))"
proof -
  define ks where "ks = filter (\<lambda>r. rx (''^'' @ q) (filename (docs db ! r)) \<noteq> []) [0..<length (docs db)]"
  define rest where "rest = (if 12000 < length ks then [(''after'', VArr [VRef (ks ! 12000)])] else [])"
  have all_docs: "eval rx db env (Documents (Collection (Lit (VStr coll)))) = Inr (VSet [0..<length (docs db)])"
    using assms by simp
  have flt: "eval rx db env
      (Filter (Documents (Collection (Lit (VStr coll))))
        (Lambda ''doc''
          (GT (Count (FindStrRegex (Select [''data'', ''filename''] (Get (Var ''doc''))) (Lit (VStr (''^'' @ q)))))
              (Lit (VNum 0)))))
    = Inr (VSet ks)"
    unfolding ks_def
    by (rule eval_Filter [OF all_docs]) (rule eval_matches, simp_all)
  have pg: "eval rx db env
      (Paginate (Filter (Documents (Collection (Lit (VStr coll))))
        (Lambda ''doc''
          (GT (Count (FindStrRegex (Select [''data'', ''filename''] (Get (Var ''doc''))) (Lit (VStr (''^'' @ q)))))
              (Lit (VNum 0))))) 12000)
    = Inr (VObj ((''data'', VArr (map VRef (take 12000 ks))) # rest))"
    unfolding rest_def by (simp only: eval.simps(18) flt sum.case val.case)
  have in_range: "\<And>r. r \<in> set (take 12000 ks) \<Longrightarrow> r < length (docs db)"
    by (auto dest: in_set_takeD simp: ks_def)
  have "eval rx db env (readDir_query coll q) =
    Inr (VObj ((''data'', VArr (map (\<lambda>v. case v of VRef r \<Rightarrow> VStr (filename (docs db ! r)) | _ \<Rightarrow> VUndef)
            (map VRef (take 12000 ks)))) # rest))"
    unfolding readDir_query_def
    by (rule eval_Map_page [OF pg]) (auto simp: eval_filename in_range simp del: eval.simps)
  then show ?thesis by (auto simp: ks_def comp_def)
qed

lemma exec_readDir_query:
  "exec rx db env (readDir_query coll q) = (eval rx db env (readDir_query coll q), db)"
  by (simp add: readDir_query_def del: eval.simps)

lemma by_ref_filter:
  "map (\<lambda>r. f (ds ! r)) (filter (\<lambda>r. R (f (ds ! r))) [0..<length ds]) = filter R (map f ds)"
proof (induction ds rule: rev_induct)
  case Nil
  show ?case by simp
next
  case (snoc x xs)
  have a: "filter (\<lambda>r. R (f ((xs @ [x]) ! r))) [0..<length xs] = filter (\<lambda>r. R (f (xs ! r))) [0..<length xs]"
    by (rule filter_cong) (simp_all add: nth_append)
  have b: "map (\<lambda>r. f ((xs @ [x]) ! r)) (filter (\<lambda>r. R (f (xs ! r))) [0..<length xs])
      = map (\<lambda>r. f (xs ! r)) (filter (\<lambda>r. R (f (xs ! r))) [0..<length xs])"
    by (rule map_cong) (simp_all add: nth_append)
  show ?case using snoc.IH by (simp add: a b)
qed

lemma filenames_by_ref:
  "map (\<lambda>r. VStr (filename (ds ! r))) (take k (filter (\<lambda>r. R (filename (ds ! r))) [0..<length ds]))
   = map VStr (take k (filter R (map filename ds)))"
proof -
  have "map VStr (take k (map (\<lambda>r. filename (ds ! r)) (filter (\<lambda>r. R (filename (ds ! r))) [0..<length ds])))
      = map VStr (take k (filter R (map filename ds)))"
    by (simp only: by_ref_filter)
  then show ?thesis by (simp add: take_map comp_def)
qed

lemma dsl_glob_result:
  assumes "reachable w" and "secret_valid w" and "collection this = db_collection (database w)"
  shows "dsl_glob (fauna_query rx) this q w =
    (Inr (VArr (map VStr (take 12000
       (filter (\<lambda>s. rx (''^'' @ q) s \<noteq> []) (map filename (docs (database w))))))), w)"
proof -
  from eval_readDir_query [OF assms(3), of rx Map.empty q] obtain rest where
    "eval rx (database w) Map.empty (readDir_query (collection this) q) =
      Inr (VObj ((''data'', VArr (map (\<lambda>r. VStr (filename (docs (database w) ! r)))
        (take 12000 (filter (\<lambda>r. rx (''^'' @ q) (filename (docs (database w) ! r)) \<noteq> [])
           [0..<length (docs (database w))])))) # rest))"
    by blast
  then show ?thesis
    using assms(1,2)
      filenames_by_ref [of "docs (database w)" 12000 "\<lambda>s. rx (''^'' @ q) s \<noteq> []"]
    by (simp add: dsl_glob_def dsl_readDir_def fauna_query_def exec_readDir_query
        del: eval.simps)
qed

lemma no_match_iff:
  "filter (\<lambda>r. filename (ds ! r) = p) [0..<length ds] = [] \<longleftrightarrow> p \<notin> filename ` set ds"
  by (fastforce simp: filter_empty_conv in_set_conv_nth)

lemma eval_get_query:
  "eval rx db env (get_query p) =
    (case filter (\<lambda>r. filename (docs db ! r) = p) [0..<length (docs db)] of
       [] \<Rightarrow> Inl not_found
     | r # _ \<Rightarrow> Inr (VStr (page (docs db ! r))))"
proof (cases "filter (\<lambda>r. filename (docs db ! r) = p) [0..<length (docs db)]")
  case Nil
  then show ?thesis by (simp add: get_query_def)
next
  case (Cons r rs)
  then have "r \<in> set (filter (\<lambda>r. filename (docs db ! r) = p) [0..<length (docs db)])" by simp
  then have "r < length (docs db)" by simp
  with Cons show ?thesis by (simp add: get_query_def get_ref_def doc_val_def doc_data_def)
qed

lemma exec_get_query: "exec rx db env (get_query p) = (eval rx db env (get_query p), db)"
  by (simp add: get_query_def del: eval.simps)

lemma exec_put_query:
  assumes "coll = db_collection db"
  shows "exec rx db Map.empty (put_query coll p v) =
    (case filter (\<lambda>r. filename (docs db ! r) = p) [0..<length (docs db)] of
       [] \<Rightarrow> (Inr (doc_val (length (docs db)) \<lparr>filename = p, page = v\<rparr>),
               db\<lparr>docs := docs db @ [\<lparr>filename = p, page = v\<rparr>]\<rparr>)
     | i # _ \<Rightarrow> (Inr (doc_val i \<lparr>filename = p, page = v\<rparr>),
               db\<lparr>docs := (docs db)[i := \<lparr>filename = p, page = v\<rparr>]\<rparr>))"
proof (cases "filter (\<lambda>r. filename (docs db ! r) = p) [0..<length (docs db)]")
  case Nil
  then show ?thesis
    using assms
    by (simp add: put_query_def page_params_def new_doc_def data_fields_def str_field_def)
next
  case (Cons i rs)
  then have "i \<in> set (filter (\<lambda>r. filename (docs db ! r) = p) [0..<length (docs db)])" by simp
  then have "i < length (docs db)" by simp
  with Cons show ?thesis
    by (simp add: put_query_def page_params_def merged_doc_def data_fields_def str_field_def
        get_ref_def doc_val_def doc_data_def)
qed

lemma first_match_kept:
  assumes "filter P [0..<n] = i # rest" and "\<And>j. j \<noteq> i \<Longrightarrow> P' j = P j" and "P' i"
  shows "\<exists>rest'. filter P' [0..<n] = i # rest'"
proof -
  from assms(1) obtain us vs where
    split: "[0..<n] = us @ i # vs" and none: "\<forall>u\<in>set us. \<not> P u"
    by (auto simp: filter_eq_Cons_iff)
  have "distinct (us @ i # vs)" using split [symmetric] by simp
  then have "i \<notin> set us" by simp
  with none assms(2) have "filter P' us = []" unfolding filter_empty_conv by metis
  with split assms(3) show ?thesis by simp
qed


lemma dsl_get_absent:
  assumes "reachable w" and "secret_valid w" and "p \<notin> filename ` set (docs (database w))"
  shows "dsl_get (fauna_query rx) this p w =
    (Inl (GraphQLError unauthorized_message (Some not_found) ''instance not found''), w)"
proof -
  have "filter (\<lambda>r. filename (docs (database w) ! r) = p) [0..<length (docs (database w))] = []"
    using assms(3) by (simp add: no_match_iff)
  then show ?thesis
    using assms(1,2)
    by (simp add: dsl_get_def fauna_query_def exec_get_query eval_get_query not_found_def
        del: eval.simps)
qed

lemma dsl_put_then_get:
  assumes "reachable w" and "secret_valid w" and "collection this = db_collection (database w)"
  shows "\<exists>w'. dsl_put (fauna_query rx) this p v w = (Inr VUndef, w') \<and>
              dsl_get (fauna_query rx) this p w' = (Inr (VStr v), w')"
proof (cases "filter (\<lambda>r. filename (docs (database w) ! r) = p) [0..<length (docs (database w))]")
  case Nil
  let ?ds = "docs (database w)"
  let ?w' = "w\<lparr>database := (database w)\<lparr>docs := ?ds @ [\<lparr>filename = p, page = v\<rparr>]\<rparr>\<rparr>"
  have put: "dsl_put (fauna_query rx) this p v w = (Inr VUndef, ?w')"
    using assms Nil by (simp add: dsl_put_def fauna_query_def exec_put_query del: exec.simps)
  have "filter (\<lambda>r. filename ((?ds @ [\<lparr>filename = p, page = v\<rparr>]) ! r) = p) [0..<length ?ds]
      = filter (\<lambda>r. filename (?ds ! r) = p) [0..<length ?ds]"
    by (rule filter_cong) (simp_all add: nth_append)
  with Nil have "filter (\<lambda>r. filename ((?ds @ [\<lparr>filename = p, page = v\<rparr>]) ! r) = p)
      [0..<length (?ds @ [\<lparr>filename = p, page = v\<rparr>])] = [length ?ds]"
    by simp
  then have "dsl_get (fauna_query rx) this p ?w' = (Inr (VStr v), ?w')"
    using assms(1,2)
    by (simp add: dsl_get_def fauna_query_def exec_get_query eval_get_query del: eval.simps)
  with put show ?thesis by blast
next
  case (Cons i rest)
  let ?ds = "docs (database w)"
  let ?w' = "w\<lparr>database := (database w)\<lparr>docs := ?ds[i := \<lparr>filename = p, page = v\<rparr>]\<rparr>\<rparr>"
  have put: "dsl_put (fauna_query rx) this p v w = (Inr VUndef, ?w')"
    using assms Cons by (simp add: dsl_put_def fauna_query_def exec_put_query del: exec.simps)
  from Cons have "i \<in> set (filter (\<lambda>r. filename (?ds ! r) = p) [0..<length ?ds])" by simp
  then have i: "i < length ?ds" by simp
  have "\<exists>rest'. filter (\<lambda>r. filename (?ds[i := \<lparr>filename = p, page = v\<rparr>] ! r) = p) [0..<length ?ds]
      = i # rest'"
    by (rule first_match_kept [OF Cons]) (simp_all add: i)
  then obtain rest' where
    "filter (\<lambda>r. filename (?ds[i := \<lparr>filename = p, page = v\<rparr>] ! r) = p)
       [0..<length (?ds[i := \<lparr>filename = p, page = v\<rparr>])] = i # rest'"
    by auto
  then have "dsl_get (fauna_query rx) this p ?w' = (Inr (VStr v), ?w')"
    using assms(1,2) i
    by (simp add: dsl_get_def fauna_query_def exec_get_query eval_get_query del: eval.simps)
  with put show ?thesis by blast
qed

lemma strip_prefix_append: "strip_prefix (xs @ ys) (xs @ zs) = strip_prefix ys zs"
  by (induction xs) simp_all

lemma dl_put_then_get:
  assumes "domain this = E"
  shows "\<exists>pages'. dl_put (page_service E) this p v pages = (Inr (VObj []), pages') \<and>
                  dl_get (page_service E) this p pages' = (Inr (VStr v), pages')"
proof -
  have put: "dl_put (page_service E) this p v pages = (Inr (VObj []), AList.update p v pages)"
    using assms
    by (simp add: dl_put_def page_service_def body_fields_def ack_def response_json_def)
  have "strip_prefix (E @ ''/page?filepath='') (E @ ''/page?filepath='' @ p) = Some p"
    by (simp only: strip_prefix_append) simp
  then have "dl_get (page_service E) this p (AList.update p v pages)
      = (Inr (VStr v), AList.update p v pages)"
    using assms
    by (simp add: dl_get_def page_service_def response_json_def update_conv')
  with put show ?thesis by blast
qed

lemma dl_glob_service:
  assumes "domain this = E"
  shows "dl_glob (page_service E) this q pages =
    (Inr (VArr (map VStr (filter (prefix q) (map fst pages)))), pages)"
  using assms
  by (simp add: dl_glob_def dl_readDir_def page_service_def body_fields_def response_json_def)

section \<open>Write then read\<close>

text \<open>
  C2. Write-then-read consistency, \<open>put(p, v)\<close> followed by \<open>get(p)\<close> returns \<open>v\<close>, holds
  for the query-DSL revision and for the datalayer revision (lemmas
  \<open>dsl_put_then_get\<close> and \<open>dl_put_then_get\<close>) but not for the REST revision of the
  graphql package: its \<open>put\<close> sends the body \<open>{filename, path, data}.toString()\<close>,
  which is the same string for every path and payload, so what it does never depends
  on them, on any network; and against the page service, after
  \<open>put("a.md", "hello")\<close> on an empty backend, \<open>get("a.md")\<close> does not return \<open>hello\<close>.
\<close>

theorem rest_put_forgets_path_and_payload:
  "rest_put fetch this p v w = rest_put fetch this p' v' w \<and>
   fst (rest_get (page_service ''https://fauna.example'') example_bridge ''a.md''
     (snd (rest_put (page_service ''https://fauna.example'') example_bridge ''a.md'' ''hello'' [])))
   \<noteq> Inr (VStr ''hello'')"
proof -
  have a: "rest_put fetch this p v w = rest_put fetch this p' v' w"
    by (simp add: rest_put_def Object_toString_def)
  have b: "snd (rest_put (page_service ''https://fauna.example'') example_bridge ''a.md'' ''hello'' []) = []"
    by (simp add: rest_put_def Object_toString_def page_service_def example_bridge_def
        body_fields_def bad_request_def response_json_def)
  have c: "fst (rest_get (page_service ''https://fauna.example'') example_bridge ''a.md'' [])
      \<noteq> Inr (VStr ''hello'')"
    by (simp add: rest_get_def page_service_def example_bridge_def page_absent_def response_json_def)
  from a b c show ?thesis by simp
qed

section \<open>putConfig and put\<close>

lemma dl_putConfig_counter:
  "dl_put (page_service ''https://fauna.example'') example_bridge ''a.md'' ''x'' []
     = (Inr (VObj []), [(''a.md'', ''x'')])"
  by (simp add: dl_put_def page_service_def example_bridge_def body_fields_def ack_def response_json_def)

text \<open>
  C7, as stated, fails on the result value in the datalayer revision: against the page
  service, \<open>put("a.md", "x")\<close> returns the parsed acknowledgement and
  \<open>putConfig("a.md", "x")\<close> returns \<open>undefined\<close>.
\<close>

theorem putConfig_result_differs:
  "fst (dl_putConfig (page_service ''https://fauna.example'') example_bridge ''a.md'' ''x'' []) = Inr VUndef \<and>
   fst (dl_put (page_service ''https://fauna.example'') example_bridge ''a.md'' ''x'' []) = Inr (VObj []) \<and>
   fst (dl_putConfig (page_service ''https://fauna.example'') example_bridge ''a.md'' ''x'' [])
     \<noteq> fst (dl_put (page_service ''https://fauna.example'') example_bridge ''a.md'' ''x'' [])"
  by (simp add: dl_putConfig_def dl_putConfig_counter)

text \<open>
  C7, amended. \<open>putConfig(path, payload)\<close> leaves the backend in the state
  \<open>put(path, payload)\<close> leaves it in, and fails exactly when \<open>put\<close> fails, with the
  same error; when \<open>put\<close> succeeds, \<open>putConfig\<close> returns \<open>undefined\<close>. In the query-DSL
  revision and in the REST revision \<open>put\<close> returns \<open>undefined\<close> too, so the two are
  identical there; the datalayer \<open>put\<close> returns the parsed response (or the empty
  string), which \<open>putConfig\<close> discards.
\<close>

theorem putConfig_against_put:
  "dsl_putConfig client this p v w = dsl_put client this p v w \<and>
   rest_putConfig fetch this p v s = rest_put fetch this p v s \<and>
   snd (dl_putConfig fetch this p v s) = snd (dl_put fetch this p v s) \<and>
   fst (dl_putConfig fetch this p v s) =
     (case fst (dl_put fetch this p v s) of Inl e \<Rightarrow> Inl e | Inr x \<Rightarrow> Inr VUndef)"
proof -
  have a: "dsl_putConfig client this p v w = dsl_put client this p v w"
    by (simp add: dsl_putConfig_def dsl_put_def split: prod.splits sum.splits)
  have b: "rest_putConfig fetch this p v s = rest_put fetch this p v s"
    by (simp add: rest_putConfig_def rest_put_def Let_def split: prod.splits sum.splits)
  have c: "snd (dl_putConfig fetch this p v s) = snd (dl_put fetch this p v s)"
    by (simp add: dl_putConfig_def split: prod.splits sum.splits)
  have d: "fst (dl_putConfig fetch this p v s) =
     (case fst (dl_put fetch this p v s) of Inl e \<Rightarrow> Inl e | Inr x \<Rightarrow> Inr VUndef)"
    by (simp add: dl_putConfig_def split: prod.splits sum.splits)
  from a b c d show ?thesis by simp
qed

section \<open>delete\<close>

text \<open>
  C8, as stated, fails: the query-DSL revision of \<open>FaunaBridge\<close> declares no
  \<open>delete\<close> method.
\<close>

theorem query_dsl_has_no_delete:
  "''delete'' \<notin> set (bridge_methods QueryDSL)"
  by simp

text \<open>
  C8, amended. The two REST revisions declare \<open>delete\<close>, the query-DSL revision does
  not. A \<open>delete(path)\<close> makes one \<open>DELETE\<close> request and ignores the response: it
  succeeds whenever the request completes and fails only when \<open>fetch\<close> rejects. So
  against the page service deleting a path that is not stored is no error, and a second
  \<open>delete(path)\<close> right after the first succeeds as well (in the datalayer revision it
  finds the path removed and leaves the backend as it is).
\<close>

theorem delete_of_the_rest_revisions:
  "''delete'' \<in> set (bridge_methods RestGraphql) \<and>
   ''delete'' \<in> set (bridge_methods RestDatalayer) \<and>
   ''delete'' \<notin> set (bridge_methods QueryDSL) \<and>
   fst (dl_delete fetch this p w) =
     (case fst (fetch \<lparr>req_url = domain this @ ''/page'', req_method = DELETE,
                       req_body = JSON_stringify (VObj [(''filepath'', VStr p)])\<rparr> w) of
        Inl e \<Rightarrow> Inl e | Inr r \<Rightarrow> Inr VUndef) \<and>
   fst (rest_delete fetch this p w) =
     (case fst (fetch \<lparr>req_url = domain this @ ''/page'', req_method = DELETE,
                       req_body = Text ''[object Object]''\<rparr> w) of
        Inl e \<Rightarrow> Inl e | Inr r \<Rightarrow> Inr VUndef) \<and>
   dl_delete (page_service (domain this)) this p pages = (Inr VUndef, AList.delete p pages) \<and>
   dl_delete (page_service (domain this)) this p (AList.delete p pages)
     = (Inr VUndef, AList.delete p pages) \<and>
   fst (rest_delete (page_service E) this p pages) = Inr VUndef \<and>
   fst (rest_delete (page_service E) this p (snd (rest_delete (page_service E) this p pages)))
     = Inr VUndef"
proof -
  have a: "fst (dl_delete fetch this p w) =
     (case fst (fetch \<lparr>req_url = domain this @ ''/page'', req_method = DELETE,
                       req_body = JSON_stringify (VObj [(''filepath'', VStr p)])\<rparr> w) of
        Inl e \<Rightarrow> Inl e | Inr r \<Rightarrow> Inr VUndef)"
    by (simp add: dl_delete_def split: prod.splits sum.splits)
  have b: "fst (rest_delete fetch this p w) =
     (case fst (fetch \<lparr>req_url = domain this @ ''/page'', req_method = DELETE,
                       req_body = Text ''[object Object]''\<rparr> w) of
        Inl e \<Rightarrow> Inl e | Inr r \<Rightarrow> Inr VUndef)"
    by (simp add: rest_delete_def Object_toString_def split: prod.splits sum.splits)
  have c: "\<And>ps. dl_delete (page_service (domain this)) this p ps = (Inr VUndef, AList.delete p ps)"
    by (simp add: dl_delete_def page_service_def body_fields_def)
  have d: "\<And>ps. fst (rest_delete (page_service E) this p ps) = Inr VUndef"
    by (simp add: rest_delete_def page_service_def body_fields_def Object_toString_def)
  have e: "AList.delete p (AList.delete p pages) = AList.delete p pages"
    by (simp add: delete_idem)
  show ?thesis
    using a b c [of pages] c [of "AList.delete p pages"] d e by simp
qed

section \<open>Failures of the round trip\<close>

lemma datalayer_network_failure:
  assumes "\<And>req. fst (fetch req w) = Inl e"
  shows "fst (dl_glob fetch this p w) = Inl e"
    and "fst (dl_get fetch this p w) = Inl e"
    and "fst (dl_put fetch this p v w) = Inl e"
    and "fst (dl_putConfig fetch this p v w) = Inl e"
    and "fst (dl_delete fetch this p w) = Inl e"
  by (simp_all add: dl_glob_def dl_readDir_def dl_get_def dl_put_def dl_putConfig_def dl_delete_def
      case_prod_beta assms)

lemma rest_network_failure:
  assumes "\<And>req. fst (fetch req w) = Inl e"
  shows "fst (rest_glob fetch this p w) = Inl e"
    and "fst (rest_get fetch this p w) = Inl e"
    and "fst (rest_put fetch this p v w) = Inl e"
    and "fst (rest_putConfig fetch this p v w) = Inl e"
    and "fst (rest_delete fetch this p w) = Inl e"
  by (simp_all add: rest_glob_def rest_readDir_def rest_get_def rest_put_def rest_putConfig_def
      rest_delete_def case_prod_beta assms)

lemma dsl_query_failure:
  assumes "\<And>q. fst (client q s) = Inl e"
  shows "fst (dsl_glob client this p s) = Inl e"
    and "fst (dsl_put client this p v s) = Inl e"
    and "fst (dsl_putConfig client this p v s) = Inl e"
    and "fst (dsl_get client this p s) =
           Inl (if instanceof_Error e then GraphQLError unauthorized_message (Some e) (message e)
                else GraphQLError unknown_message None [])"
  by (simp_all add: dsl_glob_def dsl_readDir_def dsl_get_def dsl_put_def dsl_putConfig_def
      case_prod_beta assms)

lemma datalayer_one_round_trip:
  "snd (snd (dl_glob (counted f) this p (x, n))) = Suc n"
  "snd (snd (dl_get (counted f) this p (x, n))) = Suc n"
  "snd (snd (dl_put (counted f) this p v (x, n))) = Suc n"
  "snd (snd (dl_putConfig (counted f) this p v (x, n))) = Suc n"
  "snd (snd (dl_delete (counted f) this p (x, n))) = Suc n"
  by (simp_all add: dl_glob_def dl_readDir_def dl_get_def dl_put_def dl_putConfig_def dl_delete_def
      counted_def split: prod.splits sum.splits)

lemma rest_one_round_trip:
  "snd (snd (rest_glob (counted f) this p (x, n))) = Suc n"
  "snd (snd (rest_get (counted f) this p (x, n))) = Suc n"
  "snd (snd (rest_put (counted f) this p v (x, n))) = Suc n"
  "snd (snd (rest_putConfig (counted f) this p v (x, n))) = Suc n"
  "snd (snd (rest_delete (counted f) this p (x, n))) = Suc n"
  by (simp_all add: rest_glob_def rest_readDir_def rest_get_def rest_put_def rest_putConfig_def
      rest_delete_def counted_def Let_def split: prod.splits sum.splits)

lemma dsl_one_round_trip:
  "snd (snd (dsl_glob (counted c) this p (y, n))) = Suc n"
  "snd (snd (dsl_get (counted c) this p (y, n))) = Suc n"
  "snd (snd (dsl_put (counted c) this p v (y, n))) = Suc n"
  "snd (snd (dsl_putConfig (counted c) this p v (y, n))) = Suc n"
  by (simp_all add: dsl_glob_def dsl_readDir_def dsl_get_def dsl_put_def dsl_putConfig_def
      counted_def split: prod.splits sum.splits)

lemma datalayer_error_status:
  assumes "\<And>req. fetch' req w' = (Inr r, w'')" and "\<not> ok r"
  shows "dl_glob fetch' this p w' = (Inr (VArr []), w'')"
    and "dl_get fetch' this p w' = (Inr (VStr []), w'')"
    and "dl_put fetch' this p v w' = (Inr (VStr []), w'')"
    and "dl_putConfig fetch' this p v w' = (Inr VUndef, w'')"
    and "dl_delete fetch' this p w' = (Inr VUndef, w'')"
  by (simp_all add: dl_glob_def dl_readDir_def dl_get_def dl_put_def dl_putConfig_def dl_delete_def
      assms)


text \<open>
  C4, as stated, fails: the datalayer revision turns an HTTP failure into a success
  value. Against a server that answers every request with status 500, \<open>glob\<close>
  returns the empty list and \<open>get\<close> the empty string.
\<close>

theorem http_failure_becomes_empty_result:
  "\<not> ok \<lparr>ok = False, status = 500, json_body = None\<rparr> \<and>
   dl_glob server_error example_bridge ''content/'' () = (Inr (VArr []), ()) \<and>
   dl_get server_error example_bridge ''content/a.md'' () = (Inr (VStr []), ())"
  by (simp add: dl_glob_def dl_readDir_def dl_get_def server_error_def)

lemma rest_error_status:
  assumes "\<And>req. fetch' req w' = (Inr r, w'')"
  shows "rest_glob fetch' this p w' =
      (case json_body r of
         None \<Rightarrow> (Inl (ErrorObj ''SyntaxError'' ''Unexpected end of JSON input''), w'')
       | Some d \<Rightarrow>
          (case get_prop d ''data'' of
             Inl err \<Rightarrow> (Inl err, w'')
           | Inr ps \<Rightarrow> (Inr (if ps \<noteq> VUndef then ps else VArr []), w'')))"
    and "rest_get fetch' this p w' =
      (case json_body r of
         None \<Rightarrow> (Inl (ErrorObj ''SyntaxError'' ''Unexpected end of JSON input''), w'')
       | Some pg \<Rightarrow> (Inr (if pg \<noteq> VUndef then pg else VStr []), w''))"
    and "rest_put fetch' this p v w' =
      (case json_body r of
         None \<Rightarrow> (Inl (ErrorObj ''SyntaxError'' ''Unexpected end of JSON input''), w'')
       | Some d \<Rightarrow> (Inr VUndef, w''))"
    and "rest_delete fetch' this p w' = (Inr VUndef, w'')"
  by (simp_all add: rest_glob_def rest_readDir_def rest_get_def rest_put_def rest_delete_def
      response_json_def assms split: option.splits sum.splits)

text \<open>
  C4, amended. When the round trip itself fails (\<open>fetch\<close> rejects, the client's
  \<open>query\<close> throws), every operation of every revision fails with that same error,
  except that \<open>get\<close> of the query-DSL revision rethrows it wrapped in a
  \<open>GraphQLError\<close>; and every operation makes exactly one round trip, on every network
  (\<open>counted\<close> counts them), so nothing is retried. An HTTP error status is not a
  failure for the datalayer revision: for a response that is not \<open>ok\<close>, \<open>glob\<close>
  returns the empty list, \<open>get\<close> and \<open>put\<close> the empty string, and \<open>putConfig\<close> and
  \<open>delete\<close> succeed. The REST revision does not look at the status at all: it parses
  the body of whatever response it gets and fails only when that is not JSON text, and
  its \<open>delete\<close> ignores the response.
\<close>

theorem round_trip_failures:
  assumes net: "\<And>req. fst (fetch req w) = Inl e"
    and qry: "\<And>q. fst (client q s) = Inl e"
    and http: "\<And>req. fetch' req w' = (Inr r, w'')"
    and status: "\<not> ok r"
  shows
   "(fst (dl_glob fetch this p w) = Inl e \<and> fst (dl_get fetch this p w) = Inl e \<and>
     fst (dl_put fetch this p v w) = Inl e \<and> fst (dl_putConfig fetch this p v w) = Inl e \<and>
     fst (dl_delete fetch this p w) = Inl e) \<and>
    (fst (rest_glob fetch this p w) = Inl e \<and> fst (rest_get fetch this p w) = Inl e \<and>
     fst (rest_put fetch this p v w) = Inl e \<and> fst (rest_putConfig fetch this p v w) = Inl e \<and>
     fst (rest_delete fetch this p w) = Inl e) \<and>
    (fst (dsl_glob client this p s) = Inl e \<and> fst (dsl_put client this p v s) = Inl e \<and>
     fst (dsl_putConfig client this p v s) = Inl e \<and>
     fst (dsl_get client this p s) =
       Inl (if instanceof_Error e then GraphQLError unauthorized_message (Some e) (message e)
            else GraphQLError unknown_message None [])) \<and>
    (snd (snd (dl_glob (counted f) this p (x, n))) = Suc n \<and>
     snd (snd (dl_get (counted f) this p (x, n))) = Suc n \<and>
     snd (snd (dl_put (counted f) this p v (x, n))) = Suc n \<and>
     snd (snd (dl_putConfig (counted f) this p v (x, n))) = Suc n \<and>
     snd (snd (dl_delete (counted f) this p (x, n))) = Suc n) \<and>
    (snd (snd (rest_glob (counted f) this p (x, n))) = Suc n \<and>
     snd (snd (rest_get (counted f) this p (x, n))) = Suc n \<and>
     snd (snd (rest_put (counted f) this p v (x, n))) = Suc n \<and>
     snd (snd (rest_putConfig (counted f) this p v (x, n))) = Suc n \<and>
     snd (snd (rest_delete (counted f) this p (x, n))) = Suc n) \<and>
    (snd (snd (dsl_glob (counted c) this p (y, n))) = Suc n \<and>
     snd (snd (dsl_get (counted c) this p (y, n))) = Suc n \<and>
     snd (snd (dsl_put (counted c) this p v (y, n))) = Suc n \<and>
     snd (snd (dsl_putConfig (counted c) this p v (y, n))) = Suc n) \<and>
    (dl_glob fetch' this p w' = (Inr (VArr []), w'') \<and>
     dl_get fetch' this p w' = (Inr (VStr []), w'') \<and>
     dl_put fetch' this p v w' = (Inr (VStr []), w'') \<and>
     dl_putConfig fetch' this p v w' = (Inr VUndef, w'') \<and>
     dl_delete fetch' this p w' = (Inr VUndef, w'')) \<and>
    (rest_glob fetch' this p w' =
      (case json_body r of
         None \<Rightarrow> (Inl (ErrorObj ''SyntaxError'' ''Unexpected end of JSON input''), w'')
       | Some d \<Rightarrow>
          (case get_prop d ''data'' of
             Inl err \<Rightarrow> (Inl err, w'')
           | Inr ps \<Rightarrow> (Inr (if ps \<noteq> VUndef then ps else VArr []), w''))) \<and>
     rest_get fetch' this p w' =
      (case json_body r of
         None \<Rightarrow> (Inl (ErrorObj ''SyntaxError'' ''Unexpected end of JSON input''), w'')
       | Some pg \<Rightarrow> (Inr (if pg \<noteq> VUndef then pg else VStr []), w'')) \<and>
     rest_put fetch' this p v w' =
      (case json_body r of
         None \<Rightarrow> (Inl (ErrorObj ''SyntaxError'' ''Unexpected end of JSON input''), w'')
       | Some d \<Rightarrow> (Inr VUndef, w'')) \<and>
     rest_delete fetch' this p w' = (Inr VUndef, w''))"
proof (intro conjI)
qed (simp_all only:
      datalayer_network_failure [where fetch = fetch and w = w and e = e, OF net]
      rest_network_failure [where fetch = fetch and w = w and e = e, OF net]
      dsl_query_failure [where client = client and s = s and e = e, OF qry]
      datalayer_one_round_trip rest_one_round_trip dsl_one_round_trip
      datalayer_error_status [where fetch' = fetch' and w' = w' and r = r and w'' = w'', OF http status]
      rest_error_status [where fetch' = fetch' and w' = w' and r = r and w'' = w'', OF http])

theorem round_trip_failures_witness:
  "(\<forall>req :: request. fst (network_down req ()) = (Inl (ErrorObj ''TypeError'' ''Failed to fetch'') :: thrown + response)) \<and>
   (\<forall>q :: expr. fst (network_down q ()) = (Inl (ErrorObj ''TypeError'' ''Failed to fetch'') :: thrown + val)) \<and>
   (\<forall>req. server_error req () = (Inr \<lparr>ok = False, status = 500, json_body = None\<rparr>, ())) \<and>
   \<not> ok \<lparr>ok = False, status = 500, json_body = None\<rparr> \<and>
   fst (dl_get network_down example_bridge ''a.md'' ()) = Inl (ErrorObj ''TypeError'' ''Failed to fetch'') \<and>
   fst (rest_put network_down example_bridge ''a.md'' ''x'' ()) = Inl (ErrorObj ''TypeError'' ''Failed to fetch'') \<and>
   fst (dsl_glob network_down example_bridge ''a.md'' ()) = Inl (ErrorObj ''TypeError'' ''Failed to fetch'') \<and>
   fst (dsl_get network_down example_bridge ''a.md'' ()) =
     Inl (GraphQLError unauthorized_message (Some (ErrorObj ''TypeError'' ''Failed to fetch''))
            ''Failed to fetch'') \<and>
   snd (snd (dl_get (counted server_error) example_bridge ''a.md'' ((), 0))) = Suc 0 \<and>
   snd (snd (dsl_put (counted (fauna_query literal_rx)) example_bridge ''a.md'' ''x''
     (fauna_world_of [], 0))) = Suc 0 \<and>
   dl_glob server_error example_bridge ''a.md'' () = (Inr (VArr []), ()) \<and>
   dl_put server_error example_bridge ''a.md'' ''x'' () = (Inr (VStr []), ()) \<and>
   rest_get server_error example_bridge ''a.md'' () =
     (Inl (ErrorObj ''SyntaxError'' ''Unexpected end of JSON input''), ()) \<and>
   rest_delete server_error example_bridge ''a.md'' () = (Inr VUndef, ())"
proof -
  have net: "\<And>req :: request. fst (network_down req ()) = (Inl (ErrorObj ''TypeError'' ''Failed to fetch'') :: thrown + response)"
    by (simp add: network_down_def)
  have qry: "\<And>q :: expr. fst (network_down q ()) = (Inl (ErrorObj ''TypeError'' ''Failed to fetch'') :: thrown + val)"
    by (simp add: network_down_def)
  have http: "\<And>req. server_error req () = (Inr \<lparr>ok = False, status = 500, json_body = None\<rparr>, ())"
    by (simp add: server_error_def)
  have status: "\<not> ok \<lparr>ok = False, status = 500, json_body = None\<rparr>"
    by simp
  show ?thesis
    using net qry http status
      round_trip_failures [where fetch = network_down and w = "()"
        and e = "ErrorObj ''TypeError'' ''Failed to fetch''" and client = network_down and s = "()"
        and fetch' = server_error and w' = "()" and w'' = "()"
        and r = "\<lparr>ok = False, status = 500, json_body = None\<rparr>"
        and this = example_bridge and p = "''a.md''" and v = "''x''"
        and f = server_error and x = "()" and n = 0
        and c = "fauna_query literal_rx" and y = "fauna_world_of []", OF net qry http status]
    by simp
qed

section \<open>Reading a document that is absent\<close>

text \<open>
  C5, as stated, fails: in the query-DSL revision \<open>get\<close> of an absent document throws.
  On a reachable database with a valid token and no documents, \<open>get("absent.md")\<close> is
  a rejected promise carrying a \<open>GraphQLError\<close>, not the empty string.
\<close>

theorem get_of_absent_document_throws:
  "''absent.md'' \<notin> filename ` set (docs (database (fauna_world_of []))) \<and>
   fst (dsl_get (fauna_query literal_rx) example_bridge ''absent.md'' (fauna_world_of [])) =
     Inl (GraphQLError unauthorized_message (Some not_found) ''instance not found'') \<and>
   fst (dsl_get (fauna_query literal_rx) example_bridge ''absent.md'' (fauna_world_of [])) \<noteq>
     Inr (VStr [])"
proof -
  have "dsl_get (fauna_query literal_rx) example_bridge ''absent.md'' (fauna_world_of []) =
     (Inl (GraphQLError unauthorized_message (Some not_found) ''instance not found''), fauna_world_of [])"
    by (rule dsl_get_absent) (simp_all add: fauna_world_of_def)
  then show ?thesis by (simp add: fauna_world_of_def)
qed

lemma dl_get_by_response:
  assumes "fetch \<lparr>req_url = domain this @ ''/page?filepath='' @ p, req_method = GET, req_body = NoBody\<rparr> x
      = (Inr r, x')"
  shows "dl_get fetch this p x =
     (if ok r then (case json_body r of
                      None \<Rightarrow> (Inl (ErrorObj ''SyntaxError'' ''Unexpected end of JSON input''), x')
                    | Some v \<Rightarrow> (Inr v, x'))
      else (Inr (VStr []), x'))"
  using assms by (simp add: dl_get_def response_json_def split: option.splits)

lemma rest_get_by_response:
  assumes "fetch \<lparr>req_url = domain this @ ''/page?filepath='' @ p, req_method = GET, req_body = NoBody\<rparr> x
      = (Inr r, x')"
  shows "rest_get fetch this p x =
     (case json_body r of
        None \<Rightarrow> (Inl (ErrorObj ''SyntaxError'' ''Unexpected end of JSON input''), x')
      | Some v \<Rightarrow> (Inr (if v \<noteq> VUndef then v else VStr []), x'))"
  using assms by (simp add: rest_get_def response_json_def split: option.splits)

lemma dl_get_service_absent:
  assumes "map_of pages p = None"
  shows "dl_get (page_service (domain this)) this p pages = (Inr (VStr []), pages)"
proof -
  have "strip_prefix (domain this @ ''/page?filepath='') (domain this @ ''/page?filepath='' @ p) = Some p"
    by (simp only: strip_prefix_append) simp
  then show ?thesis
    using assms by (simp add: dl_get_def page_service_def page_absent_def)
qed

text \<open>
  C5, amended. What \<open>get\<close> does for an absent document differs by revision. In the
  query-DSL revision it throws: the service fails the read of a missing document
  ("instance not found") and \<open>get\<close> rethrows that as a \<open>GraphQLError\<close>. In the
  datalayer revision it returns the empty string whenever the response is not \<open>ok\<close>, as
  the page service's answer for a missing page is, and otherwise what the body parses to.
  The REST revision returns whatever JSON value the body of the response holds and
  throws a \<open>SyntaxError\<close> when the body is not JSON text.
\<close>

theorem get_of_absent_document:
  assumes "reachable w" and "secret_valid w" and "p \<notin> filename ` set (docs (database w))"
    and "map_of pages p = None"
    and "fetch \<lparr>req_url = domain this @ ''/page?filepath='' @ p, req_method = GET, req_body = NoBody\<rparr> x
      = (Inr r, x')"
  shows "dsl_get (fauna_query rx) this p w =
      (Inl (GraphQLError unauthorized_message (Some not_found) ''instance not found''), w) \<and>
    dl_get (page_service (domain this)) this p pages = (Inr (VStr []), pages) \<and>
    dl_get fetch this p x =
     (if ok r then (case json_body r of
                      None \<Rightarrow> (Inl (ErrorObj ''SyntaxError'' ''Unexpected end of JSON input''), x')
                    | Some v \<Rightarrow> (Inr v, x'))
      else (Inr (VStr []), x')) \<and>
    rest_get fetch this p x =
     (case json_body r of
        None \<Rightarrow> (Inl (ErrorObj ''SyntaxError'' ''Unexpected end of JSON input''), x')
      | Some v \<Rightarrow> (Inr (if v \<noteq> VUndef then v else VStr []), x'))"
  using dsl_get_absent [OF assms(1,2,3)] dl_get_service_absent [OF assms(4)]
    dl_get_by_response [where fetch = fetch and x = x and r = r and x' = x', OF assms(5)]
    rest_get_by_response [where fetch = fetch and x = x and r = r and x' = x', OF assms(5)]
  by simp

theorem get_of_absent_document_witness:
  "reachable (fauna_world_of example_docs) \<and> secret_valid (fauna_world_of example_docs) \<and>
   ''c/none.md'' \<notin> filename ` set (docs (database (fauna_world_of example_docs))) \<and>
   map_of [(''a/x.md'', ''X'')] ''c/none.md'' = None \<and>
   page_service ''https://fauna.example''
     \<lparr>req_url = ''https://fauna.example/page?filepath=c/none.md'', req_method = GET, req_body = NoBody\<rparr>
     [(''a/x.md'', ''X'')] = (Inr \<lparr>ok = False, status = 404, json_body = None\<rparr>, [(''a/x.md'', ''X'')]) \<and>
   dsl_get (fauna_query literal_rx) example_bridge ''c/none.md'' (fauna_world_of example_docs) =
      (Inl (GraphQLError unauthorized_message (Some not_found) ''instance not found''),
       fauna_world_of example_docs) \<and>
   dl_get (page_service ''https://fauna.example'') example_bridge ''c/none.md'' [(''a/x.md'', ''X'')]
     = (Inr (VStr []), [(''a/x.md'', ''X'')]) \<and>
   rest_get (page_service ''https://fauna.example'') example_bridge ''c/none.md'' [(''a/x.md'', ''X'')]
     = (Inl (ErrorObj ''SyntaxError'' ''Unexpected end of JSON input''), [(''a/x.md'', ''X'')])"
proof -
  have h1: "reachable (fauna_world_of example_docs)" by (simp add: fauna_world_of_def)
  have h2: "secret_valid (fauna_world_of example_docs)" by (simp add: fauna_world_of_def)
  have h3: "''c/none.md'' \<notin> filename ` set (docs (database (fauna_world_of example_docs)))"
    by (simp add: fauna_world_of_def example_docs_def)
  have h4: "map_of [(''a/x.md'', ''X'')] ''c/none.md'' = None" by simp
  have h5: "page_service ''https://fauna.example''
     \<lparr>req_url = domain example_bridge @ ''/page?filepath='' @ ''c/none.md'', req_method = GET,
      req_body = NoBody\<rparr>
     [(''a/x.md'', ''X'')] = (Inr \<lparr>ok = False, status = 404, json_body = None\<rparr>, [(''a/x.md'', ''X'')])"
    by (simp add: page_service_def page_absent_def example_bridge_def)
  show ?thesis
    using h1 h2 h3 h4 h5
      get_of_absent_document [where w = "fauna_world_of example_docs" and p = "''c/none.md''"
        and pages = "[(''a/x.md'', ''X'')]" and fetch = "page_service ''https://fauna.example''"
        and this = example_bridge and x = "[(''a/x.md'', ''X'')]"
        and r = "\<lparr>ok = False, status = 404, json_body = None\<rparr>" and x' = "[(''a/x.md'', ''X'')]"
        and rx = literal_rx, OF h1 h2 h3 h4 h5]
    by (simp add: example_bridge_def)
qed

section \<open>The kind of error \<open>get\<close> reports\<close>

text \<open>
  C6, as stated, fails: a failure that is not an authentication failure produces the
  auth-error kind. With a valid access token and a reachable database that holds no
  document \<open>c/none.md\<close>, \<open>get("c/none.md")\<close> of the query-DSL revision throws the
  "Unauthorized request" \<open>GraphQLError\<close>.
\<close>

theorem missing_document_reported_as_unauthorized:
  "secret_valid (fauna_world_of example_docs) \<and> reachable (fauna_world_of example_docs) \<and>
   fst (dsl_get (fauna_query literal_rx) example_bridge ''c/none.md'' (fauna_world_of example_docs)) =
     Inl (GraphQLError unauthorized_message (Some not_found) ''instance not found'') \<and>
   auth_error_kind (GraphQLError unauthorized_message (Some not_found) ''instance not found'')"
proof -
  have "dsl_get (fauna_query literal_rx) example_bridge ''c/none.md'' (fauna_world_of example_docs) =
     (Inl (GraphQLError unauthorized_message (Some not_found) ''instance not found''),
      fauna_world_of example_docs)"
    by (rule dsl_get_absent) (simp_all add: fauna_world_of_def example_docs_def)
  then show ?thesis by (simp add: fauna_world_of_def auth_error_kind_def)
qed

lemma dsl_get_rethrows:
  assumes "client (get_query p) s = (Inl e, s')"
  shows "dsl_get client this p s =
    (Inl (if instanceof_Error e then GraphQLError unauthorized_message (Some e) (message e)
          else GraphQLError unknown_message None []), s')"
  using assms by (simp add: dsl_get_def)

lemma error_kinds:
  "auth_error_kind (GraphQLError unauthorized_message orig st)"
  "\<not> auth_error_kind (GraphQLError unknown_message orig st)"
  "\<not> auth_error_kind (ErrorObj nm msg)"
  by (simp_all add: auth_error_kind_def unauthorized_message_def unknown_message_def)

text \<open>
  C6, amended. Only the query-DSL revision has an auth-error kind, and its \<open>get\<close>
  reports every \<open>Error\<close> the query throws under it: an authentication failure, a missing
  document and a transport fault alike are rethrown as a \<open>GraphQLError\<close> with the one
  "Unauthorized request" message, which keeps the original error and, as
  \<open>extensions.status\<close>, its message; those are all that tells the failures apart. A
  thrown value that is not an \<open>Error\<close> is rethrown with the "Unknown error request"
  message, which is not of the auth-error kind. In the datalayer revision \<open>get\<close>
  answers a response that is not \<open>ok\<close> (a rejected credential included) with the empty
  string, and no error.
\<close>

theorem get_error_kinds:
  assumes "client (get_query p) s = (Inl e, s')"
    and "fetch \<lparr>req_url = domain this @ ''/page?filepath='' @ p, req_method = GET, req_body = NoBody\<rparr> x
      = (Inr r, x')"
    and "\<not> ok r"
  shows "dsl_get client this p s =
      (Inl (if instanceof_Error e then GraphQLError unauthorized_message (Some e) (message e)
            else GraphQLError unknown_message None []), s') \<and>
    auth_error_kind (GraphQLError unauthorized_message (Some e) (message e)) \<and>
    \<not> auth_error_kind (GraphQLError unknown_message None []) \<and>
    dl_get fetch this p x = (Inr (VStr []), x')"
  using dsl_get_rethrows [where client = client and s = s and e = e and s' = s', OF assms(1)]
    dl_get_by_response [where fetch = fetch and x = x and r = r and x' = x', OF assms(2)] assms(3)
  by (simp add: error_kinds)

theorem get_error_kinds_witness:
  "fauna_query literal_rx (get_query ''a/x.md'') ((fauna_world_of example_docs)\<lparr>secret_valid := False\<rparr>)
     = (Inl (ErrorObj ''Unauthorized'' ''unauthorized''), (fauna_world_of example_docs)\<lparr>secret_valid := False\<rparr>) \<and>
   (\<lambda>req w. (Inr \<lparr>ok = False, status = 401, json_body = None\<rparr>, w))
      \<lparr>req_url = ''https://fauna.example/page?filepath=a/x.md'', req_method = GET, req_body = NoBody\<rparr> ()
     = (Inr \<lparr>ok = False, status = 401, json_body = None\<rparr>, ()) \<and>
   \<not> ok \<lparr>ok = False, status = 401, json_body = None\<rparr> \<and>
   dsl_get (fauna_query literal_rx) example_bridge ''a/x.md''
       ((fauna_world_of example_docs)\<lparr>secret_valid := False\<rparr>) =
     (Inl (GraphQLError unauthorized_message (Some (ErrorObj ''Unauthorized'' ''unauthorized''))
             ''unauthorized''),
      (fauna_world_of example_docs)\<lparr>secret_valid := False\<rparr>) \<and>
   dl_get (\<lambda>req w. (Inr \<lparr>ok = False, status = 401, json_body = None\<rparr>, w)) example_bridge ''a/x.md'' ()
     = (Inr (VStr []), ())"
proof -
  let ?w = "(fauna_world_of example_docs)\<lparr>secret_valid := False\<rparr>"
  let ?f = "\<lambda>(req :: request) (w :: unit). (Inr \<lparr>ok = False, status = 401, json_body = None\<rparr> :: thrown + response, w)"
  have h1: "fauna_query literal_rx (get_query ''a/x.md'') ?w
     = (Inl (ErrorObj ''Unauthorized'' ''unauthorized''), ?w)"
    by (simp add: fauna_query_def fauna_world_of_def)
  have h2: "?f \<lparr>req_url = domain example_bridge @ ''/page?filepath='' @ ''a/x.md'', req_method = GET,
      req_body = NoBody\<rparr> () = (Inr \<lparr>ok = False, status = 401, json_body = None\<rparr>, ())"
    by simp
  have h3: "\<not> ok \<lparr>ok = False, status = 401, json_body = None\<rparr>" by simp
  show ?thesis
    using h1 h3
      get_error_kinds [where client = "fauna_query literal_rx" and p = "''a/x.md''" and s = ?w
        and e = "ErrorObj ''Unauthorized'' ''unauthorized''" and s' = ?w and fetch = ?f
        and this = example_bridge and x = "()" and x' = "()"
        and r = "\<lparr>ok = False, status = 401, json_body = None\<rparr>", OF h1 h2 h3]
    by simp
qed

section \<open>Listing by prefix\<close>

lemma numbered_filenames:
  "map filename (numbered_docs n) = map (\<lambda>i. replicate i (CHR ''a'')) [0..<n]"
  by (simp add: numbered_docs_def comp_def)

lemma take_numbered_filenames:
  "k \<le> n \<Longrightarrow> take k (map filename (numbered_docs n)) = map filename (numbered_docs k)"
  by (simp add: numbered_filenames take_map min_def)

lemma last_numbered_stored:
  "replicate k (CHR ''a'') \<in> set (map filename (numbered_docs (Suc k)))"
  unfolding numbered_filenames by (simp del: upt_Suc) 

lemma last_numbered_cut:
  "replicate k (CHR ''a'') \<notin> set (map filename (numbered_docs k))"
proof
  assume "replicate k (CHR ''a'') \<in> set (map filename (numbered_docs k))"
  then obtain i where "i < k" and "replicate k (CHR ''a'') = replicate i (CHR ''a'')"
    unfolding numbered_filenames by auto
  then have "length (replicate k (CHR ''a'')) = length (replicate i (CHR ''a''))" by simp
  with \<open>i < k\<close> show False by simp
qed

lemma literal_rx_prefix: "(literal_rx (CHR ''^'' # q) s \<noteq> []) = prefix q s"
  by (simp add: literal_rx_def)

lemma crowded_glob:
  "dsl_glob (fauna_query literal_rx) example_bridge [] (fauna_world_of (numbered_docs (Suc k))) =
    (Inr (VArr (map VStr (take 12000 (map filename (numbered_docs (Suc k)))))),
     fauna_world_of (numbered_docs (Suc k)))"
proof -
  have "dsl_glob (fauna_query literal_rx) example_bridge [] (fauna_world_of (numbered_docs (Suc k))) =
    (Inr (VArr (map VStr (take 12000
       (filter (\<lambda>s. literal_rx (''^'' @ []) s \<noteq> [])
          (map filename (docs (database (fauna_world_of (numbered_docs (Suc k)))))))))),
     fauna_world_of (numbered_docs (Suc k)))"
    by (rule dsl_glob_result) (simp_all add: fauna_world_of_def example_bridge_def)
  then show ?thesis
    by (simp add: literal_rx_prefix fauna_world_of_def)
qed

text \<open>
  C3, as stated, fails when more paths match than fit in one result page. With 12001
  documents stored, all of which start with the empty prefix, \<open>glob("")\<close> of the
  query-DSL revision returns the first 12000 paths: the stored path of 12000 letters
  starts with the prefix and is not in the result.
\<close>

theorem glob_returns_one_page:
  "replicate 12000 (CHR ''a'') \<in> set (map filename (docs (database (fauna_world_of (numbered_docs 12001))))) \<and>
   prefix [] (replicate 12000 (CHR ''a'')) \<and>
   fst (dsl_glob (fauna_query literal_rx) example_bridge [] (fauna_world_of (numbered_docs 12001))) =
     Inr (VArr (map VStr (map filename (numbered_docs 12000)))) \<and>
   replicate 12000 (CHR ''a'') \<notin> set (map filename (numbered_docs 12000))"
proof -
  have s: "Suc 12000 = 12001" by simp
  have a: "replicate 12000 (CHR ''a'') \<in> set (map filename (numbered_docs 12001))"
    using last_numbered_stored [of 12000] by (simp only: s)
  have b: "fst (dsl_glob (fauna_query literal_rx) example_bridge [] (fauna_world_of (numbered_docs 12001))) =
     Inr (VArr (map VStr (take 12000 (map filename (numbered_docs 12001)))))"
    using crowded_glob [of 12000] by (simp only: s fst_conv)
  have c: "take 12000 (map filename (numbered_docs 12001)) = map filename (numbered_docs 12000)"
    by (rule take_numbered_filenames) simp
  show ?thesis
    using a b c last_numbered_cut [of 12000]
    by (simp only: fauna_world_of_def fauna_world.select_convs fauna_db.select_convs Nil_prefix
        simp_thms)
qed

text \<open>
  C3, amended. In the query-DSL revision, for a prefix \<open>q\<close> on which the regular
  expression \<open>^q\<close> matches exactly the strings that start with \<open>q\<close> (as it does when \<open>q\<close>
  has no metacharacter), \<open>glob(q)\<close> returns the stored paths that start with \<open>q\<close>, in the
  order of the collection, cut to one result page of 12000: all of them when at most
  12000 match, and the empty sequence, not an error, when none does. In the datalayer
  revision against the page service, \<open>glob(q)\<close> returns exactly the stored paths that
  start with \<open>q\<close>.
\<close>

theorem glob_by_prefix:
  assumes "\<forall>s. (rx (''^'' @ q) s \<noteq> []) = prefix q s"
    and "reachable w" and "secret_valid w" and "collection this = db_collection (database w)"
  shows "dsl_glob (fauna_query rx) this q w =
      (Inr (VArr (map VStr (take 12000 (filter (prefix q) (map filename (docs (database w))))))), w) \<and>
    (length (filter (prefix q) (map filename (docs (database w)))) \<le> 12000 \<longrightarrow>
      dsl_glob (fauna_query rx) this q w =
        (Inr (VArr (map VStr (filter (prefix q) (map filename (docs (database w)))))), w)) \<and>
    ((\<forall>s \<in> set (map filename (docs (database w))). \<not> prefix q s) \<longrightarrow>
      dsl_glob (fauna_query rx) this q w = (Inr (VArr []), w)) \<and>
    dl_glob (page_service (domain this)) this q pages =
      (Inr (VArr (map VStr (filter (prefix q) (map fst pages)))), pages)"
proof -
  have a: "dsl_glob (fauna_query rx) this q w =
      (Inr (VArr (map VStr (take 12000 (filter (prefix q) (map filename (docs (database w))))))), w)"
    using dsl_glob_result [OF assms(2,3,4), of rx q] assms(1) by simp
  have b: "(\<forall>s \<in> set (map filename (docs (database w))). \<not> prefix q s) \<longrightarrow>
      filter (prefix q) (map filename (docs (database w))) = []"
    by (simp add: filter_empty_conv)
  have c: "dl_glob (page_service (domain this)) this q pages =
      (Inr (VArr (map VStr (filter (prefix q) (map fst pages)))), pages)"
    by (rule dl_glob_service) simp
  from a b c show ?thesis by auto
qed

theorem glob_by_prefix_witness:
  "(\<forall>s. (literal_rx (''^'' @ ''a/'') s \<noteq> []) = prefix ''a/'' s) \<and>
   reachable (fauna_world_of example_docs) \<and> secret_valid (fauna_world_of example_docs) \<and>
   collection example_bridge = db_collection (database (fauna_world_of example_docs)) \<and>
   length (filter (prefix ''a/'') (map filename (docs (database (fauna_world_of example_docs))))) \<le> 12000 \<and>
   filter (prefix ''c/'') (map filename (docs (database (fauna_world_of example_docs)))) = [] \<and>
   dsl_glob (fauna_query literal_rx) example_bridge ''a/'' (fauna_world_of example_docs) =
     (Inr (VArr [VStr ''a/x.md'', VStr ''a/z.md'']), fauna_world_of example_docs) \<and>
   dsl_glob (fauna_query literal_rx) example_bridge ''c/'' (fauna_world_of example_docs) =
     (Inr (VArr []), fauna_world_of example_docs) \<and>
   dl_glob (page_service ''https://fauna.example'') example_bridge ''a/''
       [(''a/x.md'', ''X''), (''b/y.md'', ''Y'')] =
     (Inr (VArr [VStr ''a/x.md'']), [(''a/x.md'', ''X''), (''b/y.md'', ''Y'')])"
proof -
  have h1: "\<And>q. \<forall>s. (literal_rx (''^'' @ q) s \<noteq> []) = prefix q s"
    by (simp add: literal_rx_prefix)
  have h2: "reachable (fauna_world_of example_docs)" by (simp add: fauna_world_of_def)
  have h3: "secret_valid (fauna_world_of example_docs)" by (simp add: fauna_world_of_def)
  have h4: "collection example_bridge = db_collection (database (fauna_world_of example_docs))"
    by (simp add: fauna_world_of_def example_bridge_def)
  have ds: "map filename (docs (database (fauna_world_of example_docs))) = [''a/x.md'', ''b/y.md'', ''a/z.md'']"
    by (simp add: fauna_world_of_def example_docs_def)
  show ?thesis
    using h1 [of "''a/''"] h2 h3 h4
      glob_by_prefix [where rx = literal_rx and q = "''a/''" and w = "fauna_world_of example_docs"
        and this = example_bridge and pages = "[(''a/x.md'', ''X''), (''b/y.md'', ''Y'')]",
        OF h1 [of "''a/''"] h2 h3 h4]
      glob_by_prefix [where rx = literal_rx and q = "''c/''" and w = "fauna_world_of example_docs"
        and this = example_bridge and pages = "[]", OF h1 [of "''c/''"] h2 h3 h4]
    by (simp add: ds example_bridge_def)
qed

end
